theory Spec2Isabelle
  imports Main "HOL-Library.Sublist" "HOL-Library.Word"
begin

section \<open>ConfigurationCollector: a shallow embedding of \<open>main.go\<close>\<close>

text \<open>
  The collector opens one interactive session per network device, over SSH or Telnet,
  sends a fixed list of vendor commands and stores the transcript. The embedding follows
  \<open>main.go\<close> function by function. Go strings are byte strings, so they are
  \<^typ>\<open>string\<close> (a list of 8-bit characters). Everything the program learns from
  the outside (what a read returns, whether a deadline has passed, whether the context
  has been cancelled) is an explicit observation handed to the model.
\<close>

subsection \<open>The string functions of the Go library that the program calls\<close>

text \<open>\<open>strings.Contains(s, substr)\<close>: \<open>substr\<close> occurs in \<open>s\<close> as a contiguous block.\<close>

fun contains :: "string \<Rightarrow> string \<Rightarrow> bool" where
  "contains [] sub = (sub = [])"
| "contains (c # s) sub = (prefix sub (c # s) \<or> contains s sub)"


definition asciiLowerByte :: "char \<Rightarrow> char" where
  "asciiLowerByte c =
     (let n = (of_char c :: nat) in if 65 \<le> n \<and> n \<le> 90 then char_of (n + 32) else c)"

definition asciiLower :: "string \<Rightarrow> string" where
  "asciiLower s = map asciiLowerByte s"




subsection \<open>Machine integers\<close>

text \<open>
  A Go \<open>int\<close> and a \<open>time.Duration\<close> are 64-bit signed integers whose arithmetic wraps
  around. They are mathematical integers here, and every sum or product that the program
  computes on them is passed through \<open>wrap64\<close>.
\<close>

definition wrap64 :: "int \<Rightarrow> int" where
  "wrap64 x = sint (word_of_int x :: 64 word)"

text \<open>
  \<open>strings.TrimSpace\<close> removes leading and trailing white space as Unicode defines it:
  the six ASCII characters tab, line feed, vertical tab, form feed, carriage return and
  space, and the UTF-8 encodings of U+0085, U+00A0, U+1680, U+2000..U+200A, U+2028,
  U+2029, U+202F, U+205F and U+3000.
\<close>

definition spaceUnits :: "string list" where
  "spaceUnits =
     [[CHR 0x09], [CHR 0x0A], [CHR 0x0B], [CHR 0x0C], [CHR 0x0D], [CHR 0x20],
      [CHR 0xC2, CHR 0x85], [CHR 0xC2, CHR 0xA0],
      [CHR 0xE1, CHR 0x9A, CHR 0x80],
      [CHR 0xE2, CHR 0x80, CHR 0x80], [CHR 0xE2, CHR 0x80, CHR 0x81],
      [CHR 0xE2, CHR 0x80, CHR 0x82], [CHR 0xE2, CHR 0x80, CHR 0x83],
      [CHR 0xE2, CHR 0x80, CHR 0x84], [CHR 0xE2, CHR 0x80, CHR 0x85],
      [CHR 0xE2, CHR 0x80, CHR 0x86], [CHR 0xE2, CHR 0x80, CHR 0x87],
      [CHR 0xE2, CHR 0x80, CHR 0x88], [CHR 0xE2, CHR 0x80, CHR 0x89],
      [CHR 0xE2, CHR 0x80, CHR 0x8A],
      [CHR 0xE2, CHR 0x80, CHR 0xA8], [CHR 0xE2, CHR 0x80, CHR 0xA9],
      [CHR 0xE2, CHR 0x80, CHR 0xAF], [CHR 0xE2, CHR 0x81, CHR 0x9F],
      [CHR 0xE3, CHR 0x80, CHR 0x80]]"

text \<open>The length of the unit of \<open>units\<close> that \<open>s\<close> starts with, 0 when there is none.\<close>

definition unitAt :: "string list \<Rightarrow> string \<Rightarrow> nat" where
  "unitAt units s = (case find (\<lambda>u. prefix u s) units of None \<Rightarrow> 0 | Some u \<Rightarrow> length u)"

function trimUnits :: "string list \<Rightarrow> string \<Rightarrow> string" where
  "trimUnits units s =
     (let n = unitAt units s in if n = 0 then s else trimUnits units (drop n s))"
  by pat_completeness auto
termination
proof (relation "measure (\<lambda>(units, s). length s)")
  show "wf (measure (\<lambda>(units :: string list, s :: string). length s))"
    by simp
next
  fix units :: "string list" and s :: string and n :: nat
  assume n: "n = unitAt units s" and pos: "n \<noteq> 0"
  from n pos obtain u where u: "find (\<lambda>u. prefix u s) units = Some u" and len: "length u = n"
    by (auto simp: unitAt_def split: option.splits)
  from u have "prefix u s"
    by (auto simp: find_Some_iff)
  with len pos have "s \<noteq> []"
    by auto
  with pos show "((units, drop n s), (units, s)) \<in> measure (\<lambda>(units, s). length s)"
    by simp
qed

definition trimSpace :: "string \<Rightarrow> string" where
  "trimSpace s = rev (trimUnits (map rev spaceUnits) (rev (trimUnits spaceUnits s)))"

text \<open>
  \<open>strings.ReplaceAll(s, old, new)\<close> where \<open>old\<close> and \<open>new\<close> are one byte each,
  which is how \<open>sanitize\<close> calls it.
\<close>

definition replaceAll :: "string \<Rightarrow> char \<Rightarrow> char \<Rightarrow> string" where
  "replaceAll s old new = map (\<lambda>c. if c = old then new else c) s"

text \<open>\<open>sanitize\<close> (main.go, 883-890).\<close>

definition sanitize :: "string \<Rightarrow> string" where
  "sanitize s0 =
     (let s = trimSpace s0;
          s = replaceAll s (CHR '':'') (CHR ''_'');
          s = replaceAll s (CHR ''/'') (CHR ''_'');
          s = replaceAll s (CHR 0x5C) (CHR ''_'');
          s = replaceAll s (CHR '' '') (CHR ''_'')
      in s)"

subsection \<open>Configuration, assets and jobs\<close>

record Asset =
  a_Name :: string
  a_Address :: string
  a_Port :: int
  a_Protocol :: string
  a_Username :: string
  a_Password :: string
  a_PasswordEnv :: string
  a_Active :: "bool option"

record Group =
  g_Vendor :: string
  g_Username :: string
  g_Password :: string
  g_PasswordEnv :: string
  g_Assets :: "Asset list"

record Config =
  c_BaseDir :: string
  c_TimeoutSeconds :: int
  c_Concurrency :: int
  c_MaxRetries :: int
  c_Groups :: "Group list"

text \<open>
  A job, as the producer puts it on the queue. \<open>j_Timeout\<close> is a \<open>time.Duration\<close>,
  in nanoseconds. The logger and the SSH legacy options of the Go struct play no part in
  what follows and are left out.
\<close>

record Job =
  j_Vendor :: string
  j_Username :: string
  j_Password :: string
  j_Asset :: Asset
  j_Protocol :: string
  j_Timeout :: int
  j_BaseDir :: string

text \<open>The defaults that \<open>main\<close> fills in after validation (main.go, 99-111).\<close>

definition applyDefaults :: "Config \<Rightarrow> Config" where
  "applyDefaults cfg0 =
     (let cfg = (if c_TimeoutSeconds cfg0 \<le> 0 then cfg0\<lparr>c_TimeoutSeconds := 30\<rparr> else cfg0);
          cfg = (if c_Concurrency cfg \<le> 0 then cfg\<lparr>c_Concurrency := 5\<rparr> else cfg);
          cfg = (if c_MaxRetries cfg < 0 then cfg\<lparr>c_MaxRetries := 0\<rparr> else cfg);
          cfg = (if c_BaseDir cfg = [] then cfg\<lparr>c_BaseDir := ''./coletas''\<rparr> else cfg)
      in cfg)"

text \<open>
  \<open>GetPassword\<close> of a group and of an asset; \<open>getenv\<close> is \<open>os.Getenv\<close>, which
  gives the empty string for a variable that is not set.
\<close>

definition groupGetPassword :: "(string \<Rightarrow> string) \<Rightarrow> Group \<Rightarrow> string" where
  "groupGetPassword getenv g =
     (if g_PasswordEnv g \<noteq> [] \<and> getenv (g_PasswordEnv g) \<noteq> []
      then getenv (g_PasswordEnv g) else g_Password g)"

definition assetGetPassword :: "(string \<Rightarrow> string) \<Rightarrow> Asset \<Rightarrow> string" where
  "assetGetPassword getenv a =
     (if a_PasswordEnv a \<noteq> [] \<and> getenv (a_PasswordEnv a) \<noteq> []
      then getenv (a_PasswordEnv a) else a_Password a)"

definition IsActive :: "Asset \<Rightarrow> bool" where
  "IsActive a = (case a_Active a of None \<Rightarrow> True | Some b \<Rightarrow> b)"

text \<open>
  The body of the enqueue loop of \<open>main\<close> for one asset of one group (main.go,
  201-267): \<open>None\<close> when the asset is skipped (inactive, or no password), otherwise the
  job that is sent on the queue. \<open>v\<close> is the lowered, trimmed vendor of the group,
  \<open>timeout\<close> and \<open>outDir\<close> are computed once by \<open>main\<close>.
\<close>

definition makeJob ::
  "(string \<Rightarrow> string) \<Rightarrow> (string \<Rightarrow> string) \<Rightarrow> int \<Rightarrow> string \<Rightarrow> Group \<Rightarrow> string \<Rightarrow> string
     \<Rightarrow> Asset \<Rightarrow> Job option" where
  "makeJob lower getenv timeout outDir g v groupPassword a =
     (if \<not> IsActive a then None
      else
        let username = (if a_Username a = [] then g_Username g else a_Username a);
            password = (if assetGetPassword getenv a = [] then groupPassword
                        else assetGetPassword getenv a)
        in if password = [] then None
           else
             let protocol0 = lower (trimSpace (a_Protocol a));
                 protocol = (if protocol0 = [] then ''ssh'' else protocol0);
                 port = (if a_Port a = 0
                         then (if protocol = ''telnet'' then 23 else 22)
                         else a_Port a);
                 resolvedAsset = a\<lparr>a_Port := port\<rparr>
             in Some \<lparr>j_Vendor = v, j_Username = username, j_Password = password,
                      j_Asset = resolvedAsset, j_Protocol = protocol,
                      j_Timeout = timeout, j_BaseDir = outDir\<rparr>)"

text \<open>The jobs of one group, and of the whole configuration, in queue order.\<close>

definition groupJobs ::
  "(string \<Rightarrow> string) \<Rightarrow> (string \<Rightarrow> string) \<Rightarrow> int \<Rightarrow> string \<Rightarrow> Group \<Rightarrow> Job list" where
  "groupJobs lower getenv timeout outDir g =
     (let v = lower (trimSpace (g_Vendor g));
          groupPassword = groupGetPassword getenv g
      in List.map_filter (makeJob lower getenv timeout outDir g v groupPassword) (g_Assets g))"

definition enqueueJobs ::
  "(string \<Rightarrow> string) \<Rightarrow> (string \<Rightarrow> string) \<Rightarrow> string \<Rightarrow> Config \<Rightarrow> Job list" where
  "enqueueJobs lower getenv outDir cfg =
     (let timeout = wrap64 (wrap64 (c_TimeoutSeconds cfg) * 1000000000)
      in concat (map (groupJobs lower getenv timeout outDir) (c_Groups cfg)))"

subsection \<open>Errors\<close>

text \<open>
  Go errors as values. \<open>Canceled\<close> is \<open>context.Canceled\<close>, which is what
  \<open>ctx.Err()\<close> gives once the context of \<open>main\<close> has been cancelled. \<open>EOF\<close> is
  \<open>io.EOF\<close>, \<open>NetTimeout\<close> a \<open>net.Error\<close> whose \<open>Timeout()\<close> is true,
  \<open>External\<close> any other error of the operating system or a library. The remaining
  constructors are the errors that \<open>main.go\<close> builds itself:
  \<^item> \<open>ErrorS msg\<close>: \<open>fmt.Errorf(msg)\<close>, a fixed message;
  \<^item> \<open>Wrap msg e\<close>: \<open>fmt.Errorf("msg: %w", e)\<close>;
  \<^item> \<open>UnknownVendor v\<close>: \<open>fmt.Errorf("vendor desconhecido: %q (use huawei/zte)", v)\<close>;
  \<^item> \<open>UnknownProtocol p\<close>: \<open>fmt.Errorf("protocolo desconhecido: %q (use ssh ou telnet)", p)\<close>;
  \<^item> \<open>WriteCmd cmd e\<close>: \<open>fmt.Errorf("write cmd %q: %w", cmd, e)\<close>;
  \<^item> \<open>Exhausted n last\<close>: \<open>fmt.Errorf("falhou apos %d tentativas: %w", n, last)\<close>,
    where \<open>last\<close> may be the nil error.
\<close>

datatype error =
    Canceled
  | EOF
  | NetTimeout
  | External string
  | ErrorS string
  | Wrap string error
  | UnknownVendor string
  | UnknownProtocol string
  | WriteCmd string error
  | Exhausted int "error option"

subsection \<open>The vendor tables\<close>

text \<open>\<open>commandsForVendor\<close> (main.go, 467-500) and \<open>promptsForVendor\<close> (502-511).\<close>

definition commandsForVendor :: "string \<Rightarrow> error + string list" where
  "commandsForVendor vendor =
     (if vendor = ''huawei'' then
        Inr [''screen-length 0 temporary'',
             ''display version'',
             ''display license'',
             ''display current-configuration'',
             ''display interface brief'',
             ''display interface description'',
             ''display interface transceiver'',
             ''display eth-trunk brief'',
             ''display bgp peer'',
             ''display ospf peer'',
             ''display isis peer'']
      else if vendor = ''zte'' then
        Inr [''terminal length 0'',
             ''show version'',
             ''show license'',
             ''show running-config'',
             ''show interface brief'',
             ''show interface description'',
             ''show interface transceiver'',
             ''show port-channel brief'',
             ''show bgp summary'',
             ''show ospf neighbor'',
             ''show isis neighbor'']
      else Inl (UnknownVendor vendor))"

definition promptsForVendor :: "string \<Rightarrow> string list" where
  "promptsForVendor vendor =
     (if vendor = ''huawei'' then [''<'', ''>'', '']'']
      else if vendor = ''zte'' then [''#'', ''>'']
      else [''>'', ''#'', ''$''])"

subsection \<open>The read loops\<close>

text \<open>
  One turn of a read loop sees four things from outside: whether the context is done
  (only \<open>readUntilPrompt\<close> looks), whether \<open>time.Now()\<close> is past the deadline, the
  bytes \<open>data[:n]\<close> that \<open>Read\<close> delivered (empty when \<open>n = 0\<close>) and the error
  \<open>Read\<close> returned. A loop runs over the list of these observations; when the list
  ends before the loop has returned, the result is \<open>None\<close>: the call has not returned.
  The 100 ms pause after a read without error only lets time pass, which the next
  observation of the deadline reflects.
\<close>

record iter_obs =
  ob_done :: bool
  ob_expired :: bool
  ob_data :: string
  ob_err :: "error option"

text \<open>The inner \<open>for\<close> loops over the patterns: plain, and with both sides lowered.\<close>

definition anyPrompt :: "string \<Rightarrow> string list \<Rightarrow> bool" where
  "anyPrompt output prompts = list_ex (\<lambda>prompt. contains output prompt) prompts"

definition anyPatternLower :: "(string \<Rightarrow> string) \<Rightarrow> string \<Rightarrow> string list \<Rightarrow> bool" where
  "anyPatternLower lower output patterns =
     list_ex (\<lambda>pattern. contains (lower output) (lower pattern)) patterns"

text \<open>
  \<open>waitForString\<close> (main.go, 763-796). The result is the returned error, \<open>Some None\<close>
  for \<open>nil\<close>.
\<close>

fun waitLoop ::
  "(string \<Rightarrow> string) \<Rightarrow> string list \<Rightarrow> string \<Rightarrow> iter_obs list \<Rightarrow> error option option" where
  "waitLoop lower patterns buf [] = None"
| "waitLoop lower patterns buf (ob # obs) =
     (if ob_expired ob
      then Some (Some (ErrorS (''timeout aguardando padr'' @ [CHR 0xC3, CHR 0xA3] @ ''o'')))
      else
        let buf1 = buf @ ob_data ob
        in if ob_data ob \<noteq> [] \<and> anyPatternLower lower buf1 patterns then Some None
           else (case ob_err ob of
                   None \<Rightarrow> waitLoop lower patterns buf1 obs
                 | Some e \<Rightarrow> if e = NetTimeout then waitLoop lower patterns buf1 obs
                             else Some (Some e)))"

definition waitForString ::
  "(string \<Rightarrow> string) \<Rightarrow> iter_obs list \<Rightarrow> string list \<Rightarrow> error option option" where
  "waitForString lower obs patterns = waitLoop lower patterns [] obs"

text \<open>\<open>readTelnetOutput\<close> (main.go, 798-832).\<close>

fun readTelnetLoop ::
  "string list \<Rightarrow> string \<Rightarrow> iter_obs list \<Rightarrow> (string \<times> error option) option" where
  "readTelnetLoop prompts buf [] = None"
| "readTelnetLoop prompts buf (ob # obs) =
     (if ob_expired ob then Some (buf, Some (ErrorS ''timeout lendo output''))
      else
        let buf1 = buf @ ob_data ob
        in if ob_data ob \<noteq> [] \<and> anyPrompt buf1 prompts then Some (buf1, None)
           else (case ob_err ob of
                   None \<Rightarrow> readTelnetLoop prompts buf1 obs
                 | Some e \<Rightarrow> if e = NetTimeout then readTelnetLoop prompts buf1 obs
                             else Some (buf1, None)))"

definition readTelnetOutput ::
  "iter_obs list \<Rightarrow> string list \<Rightarrow> (string \<times> error option) option" where
  "readTelnetOutput obs prompts = readTelnetLoop prompts [] obs"

text \<open>\<open>readUntilPrompt\<close> (main.go, 834-881).\<close>

fun readPromptLoop ::
  "string list \<Rightarrow> string \<Rightarrow> iter_obs list \<Rightarrow> (string \<times> error option) option" where
  "readPromptLoop prompts buf [] = None"
| "readPromptLoop prompts buf (ob # obs) =
     (if ob_done ob then Some (buf, Some Canceled)
      else if ob_expired ob then Some (buf, Some (ErrorS ''timeout aguardando prompt''))
      else
        let buf1 = buf @ ob_data ob
        in if ob_data ob \<noteq> [] \<and> anyPrompt buf1 prompts then Some (buf1, None)
           else (case ob_err ob of
                   None \<Rightarrow> readPromptLoop prompts buf1 obs
                 | Some e \<Rightarrow> if e = EOF then Some (buf1, None)
                             else if e = NetTimeout then readPromptLoop prompts buf1 obs
                             else Some (buf1, Some e)))"

definition readUntilPrompt ::
  "iter_obs list \<Rightarrow> string list \<Rightarrow> (string \<times> error option) option" where
  "readUntilPrompt obs prompts = readPromptLoop prompts [] obs"

text \<open>
  The observations that keep a read loop going from buffer \<open>buf\<close>: the deadline has not
  passed, no pattern is found after the chunk, and the read gave no error or a timeout.
  \<open>silentCtx\<close> adds that the context is not done, for \<open>readUntilPrompt\<close>.
\<close>

fun silent :: "string list \<Rightarrow> string \<Rightarrow> iter_obs list \<Rightarrow> bool" where
  "silent prompts buf [] = True"
| "silent prompts buf (ob # obs) =
     (\<not> ob_expired ob
      \<and> \<not> (ob_data ob \<noteq> [] \<and> anyPrompt (buf @ ob_data ob) prompts)
      \<and> (ob_err ob = None \<or> ob_err ob = Some NetTimeout)
      \<and> silent prompts (buf @ ob_data ob) obs)"

definition silentCtx :: "string list \<Rightarrow> string \<Rightarrow> iter_obs list \<Rightarrow> bool" where
  "silentCtx prompts buf obs = (silent prompts buf obs \<and> list_all (\<lambda>ob. \<not> ob_done ob) obs)"

text \<open>Everything the reads of \<open>obs\<close> delivered, in order.\<close>

definition received :: "iter_obs list \<Rightarrow> string" where
  "received obs = concat (map ob_data obs)"

subsection \<open>What a session does: the trace\<close>

text \<open>
  The effects of a session are recorded in order: a structured log record (level,
  message, key/value fields), a dial to an address, the bytes handed to a \<open>Write\<close> of
  the connection, and a \<open>time.Sleep\<close> in milliseconds.
\<close>

datatype field = FS string | FI int | FE error

datatype net_event =
    Log string string "(string \<times> field) list"
  | Dial string string
  | Send string
  | Pause int

text \<open>\<open>%d\<close> of \<open>fmt\<close>: an integer in decimal.\<close>

function showNat :: "nat \<Rightarrow> string" where
  "showNat n =
     (if n < 10 then [''0123456789'' ! n]
      else showNat (n div 10) @ [''0123456789'' ! (n mod 10)])"
  by pat_completeness auto
termination
  by (relation "measure id") auto

definition showInt :: "int \<Rightarrow> string" where
  "showInt i = (if i < 0 then ''-'' @ showNat (nat (- i)) else showNat (nat i))"

text \<open>\<open>fmt.Sprintf("%s:%d", job.Asset.Address, job.Asset.Port)\<close>.\<close>

definition addrOf :: "Job \<Rightarrow> string" where
  "addrOf job = a_Address (j_Asset job) @ '':'' @ showInt (a_Port (j_Asset job))"

text \<open>
  The header of a transcript; \<open>now\<close> is \<open>time.Now().Format(time.RFC3339)\<close> and
  \<open>proto\<close> the protocol name that the format string of each collector spells out.
\<close>

definition transcriptHeader :: "Job \<Rightarrow> string \<Rightarrow> string \<Rightarrow> string" where
  "transcriptHeader job proto now =
     ''### ASSET='' @ a_Name (j_Asset job) @ '' IP='' @ a_Address (j_Asset job)
       @ '' VENDOR='' @ j_Vendor job @ '' PROTOCOL='' @ proto @ '' TIME='' @ now
       @ '' ###'' @ [CHR 0x0A, CHR 0x0A]"

text \<open>\<open>fmt.Fprintf(&result, "\n\n==== CMD: %s ====\n", cmd)\<close>.\<close>

definition cmdHeader :: "string \<Rightarrow> string" where
  "cmdHeader cmd = [CHR 0x0A, CHR 0x0A] @ ''==== CMD: '' @ cmd @ '' ====''  @ [CHR 0x0A]"

subsection \<open>The command loops\<close>

text \<open>
  What the command loop sees for the command at index \<open>i\<close> of the list: whether the
  context is done at the top of the turn, the error of the \<open>Write\<close> of the command, and
  the observations of the read loop that follows.
\<close>

record cmd_obs =
  co_done :: bool
  co_write :: "error option"
  co_read :: "iter_obs list"

text \<open>
  The loop of \<open>collectTelnet\<close> (main.go, 555-588). The result is the transcript so
  far, the error of an early \<open>return\<close> (\<open>None\<close> when the loop ran to its end) and the
  trace; \<open>None\<close> when a read has not returned.
\<close>

fun telnetCmds ::
  "string list \<Rightarrow> (nat \<Rightarrow> cmd_obs) \<Rightarrow> string list \<Rightarrow> nat \<Rightarrow> string \<Rightarrow> net_event list
     \<Rightarrow> (string \<times> error option \<times> net_event list) option" where
  "telnetCmds prompts obs [] i result tr = Some (result, None, tr)"
| "telnetCmds prompts obs (c # cmds) i result tr =
     (if co_done (obs i) then Some (result, Some Canceled, tr)
      else if trimSpace c = [] then telnetCmds prompts obs cmds (Suc i) result tr
      else
        (case co_write (obs i) of
           Some e \<Rightarrow>
             telnetCmds prompts obs cmds (Suc i) (result @ cmdHeader (trimSpace c))
               (tr @ [Send (trimSpace c @ [CHR 0x0A]),
                      Log ''WARN'' ''erro enviando comando''
                        [(''cmd'', FS (trimSpace c)), (''error'', FE e)]])
         | None \<Rightarrow>
             (case readTelnetOutput (co_read (obs i)) prompts of
                None \<Rightarrow> None
              | Some (output, None) \<Rightarrow>
                  telnetCmds prompts obs cmds (Suc i)
                    (result @ cmdHeader (trimSpace c) @ output)
                    (tr @ [Send (trimSpace c @ [CHR 0x0A])])
              | Some (output, Some e) \<Rightarrow>
                  telnetCmds prompts obs cmds (Suc i)
                    (result @ cmdHeader (trimSpace c) @ output)
                    (tr @ [Send (trimSpace c @ [CHR 0x0A]),
                           Log ''WARN'' ''erro lendo output do comando''
                             [(''cmd'', FS (trimSpace c)), (''error'', FE e)]]))))"

text \<open>The loop of \<open>collectSSH\<close> (main.go, 671-702).\<close>

fun sshCmds ::
  "string list \<Rightarrow> (nat \<Rightarrow> cmd_obs) \<Rightarrow> string list \<Rightarrow> nat \<Rightarrow> string \<Rightarrow> net_event list
     \<Rightarrow> (string \<times> error option \<times> net_event list) option" where
  "sshCmds prompts obs [] i result tr = Some (result, None, tr)"
| "sshCmds prompts obs (c # cmds) i result tr =
     (if co_done (obs i) then Some (result, Some Canceled, tr)
      else if trimSpace c = [] then sshCmds prompts obs cmds (Suc i) result tr
      else
        (case co_write (obs i) of
           Some e \<Rightarrow>
             Some (result @ cmdHeader (trimSpace c), Some (WriteCmd (trimSpace c) e),
                   tr @ [Send (trimSpace c @ [CHR 0x0A])])
         | None \<Rightarrow>
             (case readUntilPrompt (co_read (obs i)) prompts of
                None \<Rightarrow> None
              | Some (output, None) \<Rightarrow>
                  sshCmds prompts obs cmds (Suc i)
                    (result @ cmdHeader (trimSpace c) @ output)
                    (tr @ [Send (trimSpace c @ [CHR 0x0A])])
              | Some (output, Some e) \<Rightarrow>
                  sshCmds prompts obs cmds (Suc i)
                    (result @ cmdHeader (trimSpace c) @ output)
                    (tr @ [Send (trimSpace c @ [CHR 0x0A]),
                           Log ''WARN'' ''erro lendo output do comando''
                             [(''cmd'', FS (trimSpace c)), (''error'', FE e)]]))))"

subsection \<open>The two collectors\<close>

text \<open>
  What a Telnet session meets: the time of the header, the result of the dial, the reads
  of the two handshake waits, the results of the two handshake writes, and the
  observations of the command loop.
\<close>

record telnet_env =
  te_now :: string
  te_dial :: "error option"
  te_login :: "iter_obs list"
  te_wuser :: "error option"
  te_passwd :: "iter_obs list"
  te_wpass :: "error option"
  te_cmds :: "nat \<Rightarrow> cmd_obs"

text \<open>\<open>collectTelnet\<close> (main.go, 513-595).\<close>

definition collectTelnet ::
  "(string \<Rightarrow> string) \<Rightarrow> telnet_env \<Rightarrow> Job \<Rightarrow> string list \<Rightarrow> string list
     \<Rightarrow> (string \<times> error option \<times> net_event list) option" where
  "collectTelnet lower env job cmds prompts =
     (let tr0 = [Log ''INFO'' ''conectando via telnet'' [(''address'', FS (addrOf job))],
                 Dial ''tcp'' (addrOf job)];
          result = transcriptHeader job ''telnet'' (te_now env)
      in case te_dial env of
           Some e \<Rightarrow> Some ([], Some (Wrap ''dial telnet'' e), tr0)
         | None \<Rightarrow>
        (case waitForString lower (te_login env) [''sername:'', ''ogin:''] of
           None \<Rightarrow> None
         | Some (Some e) \<Rightarrow>
             Some (result, Some (Wrap ''timeout aguardando login prompt'' e), tr0)
         | Some None \<Rightarrow>
        (case te_wuser env of
           Some e \<Rightarrow>
             Some (result, Some (Wrap ''erro enviando username'' e),
                   tr0 @ [Send (j_Username job @ [CHR 0x0A])])
         | None \<Rightarrow>
        (case waitForString lower (te_passwd env) [''assword:''] of
           None \<Rightarrow> None
         | Some (Some e) \<Rightarrow>
             Some (result, Some (Wrap ''timeout aguardando password prompt'' e),
                   tr0 @ [Send (j_Username job @ [CHR 0x0A])])
         | Some None \<Rightarrow>
        (case te_wpass env of
           Some e \<Rightarrow>
             Some (result, Some (Wrap ''erro enviando password'' e),
                   tr0 @ [Send (j_Username job @ [CHR 0x0A]),
                          Send (j_Password job @ [CHR 0x0A])])
         | None \<Rightarrow>
        (case telnetCmds prompts (te_cmds env) cmds 0 result
                (tr0 @ [Send (j_Username job @ [CHR 0x0A]),
                        Send (j_Password job @ [CHR 0x0A]), Pause 2000]) of
           None \<Rightarrow> None
         | Some (res, Some e, tr) \<Rightarrow> Some (res, Some e, tr)
         | Some (res, None, tr) \<Rightarrow>
             Some (res, None, tr @ [Send (''quit'' @ [CHR 0x0A]), Pause 300])))))))"

text \<open>
  What an SSH session meets: the results of the dial, of the SSH handshake, and of
  opening the session, the terminal, the two pipes and the shell; the reads of the wait
  for the first prompt; and the observations of the command loop.
\<close>

record ssh_env =
  se_now :: string
  se_dial :: "error option"
  se_handshake :: "error option"
  se_session :: "error option"
  se_pty :: "error option"
  se_stdin :: "error option"
  se_stdout :: "error option"
  se_shell :: "error option"
  se_initial :: "iter_obs list"
  se_cmds :: "nat \<Rightarrow> cmd_obs"

text \<open>
  \<open>collectSSH\<close> (main.go, 597-709). The legacy algorithm lists only change the client
  configuration handed to the SSH library and are not modelled.
\<close>

definition collectSSH ::
  "ssh_env \<Rightarrow> Job \<Rightarrow> string list \<Rightarrow> string list
     \<Rightarrow> (string \<times> error option \<times> net_event list) option" where
  "collectSSH env job cmds prompts =
     (let tr0 = [Log ''INFO'' ''conectando via ssh'' [(''address'', FS (addrOf job))],
                 Dial ''tcp'' (addrOf job)];
          result = transcriptHeader job ''ssh'' (se_now env)
      in case se_dial env of Some e \<Rightarrow> Some ([], Some (Wrap ''dial tcp'' e), tr0) | None \<Rightarrow>
        (case se_handshake env of
           Some e \<Rightarrow> Some ([], Some (Wrap ''ssh handshake'' e), tr0) | None \<Rightarrow>
        (case se_session env of
           Some e \<Rightarrow> Some ([], Some (Wrap ''new session'' e), tr0) | None \<Rightarrow>
        (case se_pty env of
           Some e \<Rightarrow> Some ([], Some (Wrap ''request pty'' e), tr0) | None \<Rightarrow>
        (case se_stdin env of
           Some e \<Rightarrow> Some ([], Some (Wrap ''stdin pipe'' e), tr0) | None \<Rightarrow>
        (case se_stdout env of
           Some e \<Rightarrow> Some ([], Some (Wrap ''stdout pipe'' e), tr0) | None \<Rightarrow>
        (case se_shell env of
           Some e \<Rightarrow> Some ([], Some (Wrap ''start shell'' e), tr0) | None \<Rightarrow>
        (case readUntilPrompt (se_initial env) prompts of
           None \<Rightarrow> None
         | Some (banner, err) \<Rightarrow>
        (case sshCmds prompts (se_cmds env) cmds 0 result
                (tr0 @ (case err of
                          None \<Rightarrow> []
                        | Some e \<Rightarrow> [Log ''WARN'' ''timeout aguardando prompt inicial''
                                       [(''error'', FE e)]])) of
           None \<Rightarrow> None
         | Some (res, Some e, tr) \<Rightarrow> Some (res, Some e, tr)
         | Some (res, None, tr) \<Rightarrow>
             Some (res, None, tr @ [Send (''quit'' @ [CHR 0x0A]), Pause 300]))))))))))"

subsection \<open>Paths: \<open>filepath.Join\<close> and \<open>filepath.Clean\<close>\<close>

text \<open>
  The Go library's \<open>filepath.Clean\<close> on a system whose separator is \<open>/\<close>, by its
  documented rules: runs of separators count as one, \<open>.\<close> elements go, an inner
  \<open>..\<close> goes together with the element before it, \<open>..\<close> at the start of a rooted
  path goes, and the empty result is \<open>.\<close>. The path is handled as its list of
  elements.
\<close>

fun splitOn :: "char \<Rightarrow> string \<Rightarrow> string list" where
  "splitOn sep [] = [[]]"
| "splitOn sep (c # s) =
     (if c = sep then [] # splitOn sep s
      else (case splitOn sep s of [] \<Rightarrow> [[c]] | w # ws \<Rightarrow> (c # w) # ws))"

definition cleanStep :: "bool \<Rightarrow> string list \<Rightarrow> string \<Rightarrow> string list" where
  "cleanStep rooted stack elem =
     (if elem = [] \<or> elem = ''.'' then stack
      else if elem = ''..'' then
        (if stack \<noteq> [] \<and> last stack \<noteq> ''..'' then butlast stack
         else if rooted then stack
         else stack @ [''..''])
      else stack @ [elem])"

definition isRooted :: "string \<Rightarrow> bool" where
  "isRooted path = (case path of [] \<Rightarrow> False | c # _ \<Rightarrow> c = CHR ''/'')"

definition pathElems :: "string \<Rightarrow> string list" where
  "pathElems path = foldl (cleanStep (isRooted path)) [] (splitOn (CHR ''/'') path)"

fun joinWith :: "string \<Rightarrow> string list \<Rightarrow> string" where
  "joinWith sep [] = []"
| "joinWith sep [x] = x"
| "joinWith sep (x # y # ys) = x @ sep @ joinWith sep (y # ys)"

definition renderPath :: "bool \<Rightarrow> string list \<Rightarrow> string" where
  "renderPath rooted elems =
     (if rooted then ''/'' @ joinWith ''/'' elems
      else if elems = [] then ''.''
      else joinWith ''/'' elems)"

definition Clean :: "string \<Rightarrow> string" where
  "Clean path = renderPath (isRooted path) (pathElems path)"

text \<open>
  \<open>filepath.Join\<close>: the elements from the first non-empty one on, joined by the
  separator and cleaned; the empty string when all are empty.
\<close>

definition Join :: "string list \<Rightarrow> string" where
  "Join elems =
     (case dropWhile (\<lambda>e. e = []) elems of
        [] \<Rightarrow> []
      | e # es \<Rightarrow> Clean (joinWith ''/'' (e # es)))"

subsection \<open>The Single-Job Executor\<close>

text \<open>
  \<open>time.Now().Format("150405")\<close>: hour, minute and second of the wall clock, two
  digits each.
\<close>

definition pad2 :: "nat \<Rightarrow> string" where
  "pad2 n = [''0123456789'' ! (n div 10 mod 10), ''0123456789'' ! (n mod 10)]"

definition timestamp :: "nat \<times> nat \<times> nat \<Rightarrow> string" where
  "timestamp hms = (case hms of (h, m, s) \<Rightarrow> pad2 h @ pad2 m @ pad2 s)"

text \<open>The file name and the path of the transcript (main.go, 458-462).\<close>

definition transcriptName :: "nat \<times> nat \<times> nat \<Rightarrow> Job \<Rightarrow> string" where
  "transcriptName hms job =
     sanitize (a_Name (j_Asset job)) @ ''__'' @ sanitize (a_Address (j_Asset job)) @ ''__''
       @ j_Vendor job @ ''__'' @ j_Protocol job @ ''__'' @ timestamp hms @ ''.txt''"

definition transcriptPath :: "nat \<times> nat \<times> nat \<Rightarrow> Job \<Rightarrow> string" where
  "transcriptPath hms job = Join [j_BaseDir job, transcriptName hms job]"

text \<open>
  What one run of a job meets: the two possible sessions, the wall clock when the file
  name is built, and the result of \<open>writeAtomic\<close>.
\<close>

record job_env =
  je_telnet :: telnet_env
  je_ssh :: ssh_env
  je_hms :: "nat \<times> nat \<times> nat"
  je_write :: "error option"

datatype job_event = Net net_event | WriteFile string string

text \<open>
  The end of \<open>runJob\<close>, after the collector has returned (main.go, 454-464).
\<close>

definition finishJob ::
  "job_env \<Rightarrow> Job \<Rightarrow> (string \<times> error option \<times> net_event list) option
     \<Rightarrow> (error option \<times> job_event list) option" where
  "finishJob env job r =
     (case r of
        None \<Rightarrow> None
      | Some (out, Some e, tr) \<Rightarrow> Some (Some e, map Net tr)
      | Some (out, None, tr) \<Rightarrow>
          Some (je_write env, map Net tr @ [WriteFile (transcriptPath (je_hms env) job) out]))"

text \<open>
  \<open>runJob\<close> (main.go, 428-465); \<open>done\<close> says whether the context is done when the
  function is entered.
\<close>

definition runJob ::
  "(string \<Rightarrow> string) \<Rightarrow> bool \<Rightarrow> job_env \<Rightarrow> Job \<Rightarrow> (error option \<times> job_event list) option" where
  "runJob lower done env job =
     (if done then Some (Some Canceled, [])
      else
        (case commandsForVendor (j_Vendor job) of
           Inl e \<Rightarrow> Some (Some e, [])
         | Inr cmds \<Rightarrow>
             (let prompts = promptsForVendor (j_Vendor job)
              in if j_Protocol job = ''telnet''
                 then finishJob env job (collectTelnet lower (je_telnet env) job cmds prompts)
                 else if j_Protocol job = ''ssh''
                 then finishJob env job (collectSSH (je_ssh env) job cmds prompts)
                 else Some (Some (UnknownProtocol (j_Protocol job)), []))))"

subsection \<open>The Retry Controller\<close>

text \<open>
  Time is a clock in nanoseconds. The context is cancelled at most once, at the instant
  \<open>cancelAt\<close>; from then on \<open>ctx.Done()\<close> is ready.
\<close>

definition ctxDone :: "int option \<Rightarrow> int \<Rightarrow> bool" where
  "ctxDone cancelAt clock = (case cancelAt of None \<Rightarrow> False | Some t \<Rightarrow> t \<le> clock)"

text \<open>\<open>time.Duration(attempt) * 2 * time.Second\<close>, in nanoseconds.\<close>

definition backoffOf :: "int \<Rightarrow> int" where
  "backoffOf attempt = wrap64 (wrap64 (wrap64 attempt * 2) * 1000000000)"

text \<open>\<open>time.Sleep(d)\<close> returns at once when \<open>d\<close> is zero or negative.\<close>

definition afterSleep :: "int \<Rightarrow> int \<Rightarrow> int" where
  "afterSleep clock d = (if 0 < d then clock + d else clock)"

text \<open>
  The trace of the controller: the log record of a retry (asset, attempt, max_retries,
  backoff), the sleep of the backoff, and each call of the executor.
\<close>

datatype ctl_event =
    Retrying string int int int
  | Sleep int
  | RunJob int

text \<open>
  \<open>runJobWithRetry\<close> (main.go, 397-426). The executor is a parameter: \<open>run attempt
  clock\<close> is the call of \<open>runJob\<close> made for that attempt at that instant, and gives the
  returned error and the time the call took, or \<open>None\<close> when the call does not return.
  The loop counter is a Go \<open>int\<close>: \<open>attempt++\<close> and \<open>maxRetries+1\<close> wrap around. With
  the largest \<open>maxRetries\<close> the test \<open>attempt <= maxRetries\<close> never fails, so the loop
  need not end: the result \<open>None\<close> says that the call does not return. Otherwise the
  result is the returned error, the clock at the return, and the trace.
\<close>

partial_function (option) retryLoop ::
  "int option \<Rightarrow> (int \<Rightarrow> int \<Rightarrow> (error option \<times> int) option) \<Rightarrow> Job \<Rightarrow> int
     \<Rightarrow> int \<Rightarrow> error option \<Rightarrow> int \<Rightarrow> ctl_event list
     \<Rightarrow> (error option \<times> int \<times> ctl_event list) option" where
  "retryLoop cancelAt run job maxRetries attempt lastErr clock tr =
     (if attempt \<le> maxRetries then
        (if ctxDone cancelAt clock then Some (Some Canceled, clock, tr)
         else
           (let tr1 = (if 0 < attempt
                       then tr @ [Retrying (a_Name (j_Asset job)) attempt maxRetries
                                    (backoffOf attempt),
                                  Sleep (backoffOf attempt)]
                       else tr);
                clock1 = (if 0 < attempt then afterSleep clock (backoffOf attempt) else clock)
            in case run attempt clock1 of
                 None \<Rightarrow> None
               | Some (None, elapsed) \<Rightarrow> Some (None, clock1 + elapsed, tr1 @ [RunJob attempt])
               | Some (Some e, elapsed) \<Rightarrow>
                   retryLoop cancelAt run job maxRetries (wrap64 (attempt + 1)) (Some e)
                     (clock1 + elapsed) (tr1 @ [RunJob attempt])))
      else Some (Some (Exhausted (wrap64 (maxRetries + 1)) lastErr), clock, tr))"

declare retryLoop.simps [code]

definition runJobWithRetry ::
  "int option \<Rightarrow> (int \<Rightarrow> int \<Rightarrow> (error option \<times> int) option) \<Rightarrow> Job \<Rightarrow> int \<Rightarrow> int
     \<Rightarrow> (error option \<times> int \<times> ctl_event list) option" where
  "runJobWithRetry cancelAt run job maxRetries clock =
     retryLoop cancelAt run job maxRetries 0 None clock []"

text \<open>
  The executor that the workers pass: \<open>runJob\<close> itself, entered with the context as it
  is at that instant; \<open>envs attempt\<close> is what that run meets and \<open>took attempt\<close> the
  time it takes.
\<close>

definition runJobAt ::
  "(string \<Rightarrow> string) \<Rightarrow> int option \<Rightarrow> (int \<Rightarrow> job_env) \<Rightarrow> (int \<Rightarrow> int) \<Rightarrow> Job
     \<Rightarrow> int \<Rightarrow> int \<Rightarrow> (error option \<times> int) option" where
  "runJobAt lower cancelAt envs took job attempt clock =
     (case runJob lower (ctxDone cancelAt clock) (envs attempt) job of
        None \<Rightarrow> None
      | Some (err, tr) \<Rightarrow> Some (err, took attempt))"

text \<open>
  What the controller's trace holds for the attempt with counter \<open>i\<close>: for a retry the
  log record and the sleep, then the call of the executor.
\<close>

definition attemptEvents :: "Job \<Rightarrow> int \<Rightarrow> int \<Rightarrow> ctl_event list" where
  "attemptEvents job maxRetries i =
     (if 0 < i
      then [Retrying (a_Name (j_Asset job)) i maxRetries (backoffOf i), Sleep (backoffOf i)]
      else []) @ [RunJob i]"

text \<open>The attempts for which the executor was called, read off a trace.\<close>

fun runCalls :: "ctl_event list \<Rightarrow> int list" where
  "runCalls [] = []"
| "runCalls (RunJob i # evs) = i # runCalls evs"
| "runCalls (ev # evs) = runCalls evs"

text \<open>
  The recursive equations of the functions defined by well-founded recursion are unfolded
  by hand where needed.
\<close>

declare trimUnits.simps [simp del] showNat.simps [simp del]

subsection \<open>Example inputs\<close>

definition exAsset :: Asset where
  "exAsset = \<lparr>a_Name = ''sw1'', a_Address = ''10.0.0.1'', a_Port = 0,
     a_Protocol = ''Telnet '', a_Username = [], a_Password = [], a_PasswordEnv = [],
     a_Active = None\<rparr>"

definition exConfig :: Config where
  "exConfig = \<lparr>c_BaseDir = ''out'', c_TimeoutSeconds = 30, c_Concurrency = 5,
     c_MaxRetries = - 1,
     c_Groups = [\<lparr>g_Vendor = ''Huawei'', g_Username = ''admin'', g_Password = ''pw'',
                  g_PasswordEnv = [], g_Assets = [exAsset]\<rparr>]\<rparr>"

definition exJob :: Job where
  "exJob = \<lparr>j_Vendor = ''huawei'', j_Username = ''admin'', j_Password = ''pw'',
     j_Asset = exAsset\<lparr>a_Port := 23\<rparr>, j_Protocol = ''telnet'',
     j_Timeout = 30000000000, j_BaseDir = ''out/d''\<rparr>"

definition exChunk :: "string \<Rightarrow> iter_obs" where
  "exChunk d = \<lparr>ob_done = False, ob_expired = False, ob_data = d, ob_err = None\<rparr>"

definition exLast :: "string \<Rightarrow> error \<Rightarrow> iter_obs" where
  "exLast d e = \<lparr>ob_done = False, ob_expired = False, ob_data = d, ob_err = Some e\<rparr>"

text \<open>
  Command observations: every write succeeds and every read delivers \<open>ok>\<close>; and the
  same, except that the write of the first command fails.
\<close>

definition exOkObs :: "nat \<Rightarrow> cmd_obs" where
  "exOkObs i = \<lparr>co_done = False, co_write = None, co_read = [exChunk ''ok>'']\<rparr>"

definition exCmdObs :: "nat \<Rightarrow> cmd_obs" where
  "exCmdObs i = \<lparr>co_done = False,
     co_write = (if i = 0 then Some (External ''broken pipe'') else None),
     co_read = [exChunk ''ok>'']\<rparr>"

definition exSshEnv :: "(nat \<Rightarrow> cmd_obs) \<Rightarrow> ssh_env" where
  "exSshEnv obs = \<lparr>se_now = ''2024-01-01T09:05:59Z'', se_dial = None, se_handshake = None,
     se_session = None, se_pty = None, se_stdin = None, se_stdout = None, se_shell = None,
     se_initial = [exChunk ''sw1>''], se_cmds = obs\<rparr>"

definition exTelnetEnv :: "(nat \<Rightarrow> cmd_obs) \<Rightarrow> telnet_env" where
  "exTelnetEnv obs = \<lparr>te_now = ''2024-01-01T09:05:59Z'', te_dial = None,
     te_login = [exChunk ''Login:''], te_wuser = None,
     te_passwd = [exChunk ''Password:''], te_wpass = None, te_cmds = obs\<rparr>"

definition exJobEnv :: "(nat \<Rightarrow> cmd_obs) \<Rightarrow> job_env" where
  "exJobEnv obs = \<lparr>je_telnet = exTelnetEnv obs, je_ssh = exSshEnv obs,
     je_hms = (9, 5, 59), je_write = None\<rparr>"

definition exSshJob :: Job where
  "exSshJob = \<lparr>j_Vendor = ''zte'', j_Username = ''admin'', j_Password = ''pw'',
     j_Asset = exAsset\<lparr>a_Name := ''core/sw 1'', a_Port := 22\<rparr>, j_Protocol = ''ssh'',
     j_Timeout = 30000000000, j_BaseDir = ''out/d''\<rparr>"

text \<open>A device that refuses every connection, each attempt taking 5 ns.\<close>

definition exDownEnv :: "int \<Rightarrow> job_env" where
  "exDownEnv attempt =
     (exJobEnv exOkObs)\<lparr>je_telnet := (exTelnetEnv exOkObs)
                            \<lparr>te_dial := Some (External ''connection refused'')\<rparr>\<rparr>"

definition exTook :: "int \<Rightarrow> int" where
  "exTook attempt = 5"

text \<open>An executor that fails on every call, after 1 ns.\<close>

definition exFailing :: "int \<Rightarrow> int \<Rightarrow> (error option \<times> int) option" where
  "exFailing attempt clock = Some (Some (External ''down''), 1)"

section \<open>Properties\<close>

subsection \<open>The producer resolves the port\<close>

lemma makeJob_port:
  assumes "makeJob lower getenv timeout outDir g v gp a = Some job"
  shows "a_Port (j_Asset job) \<noteq> 0
       \<and> j_Asset job = a\<lparr>a_Port := a_Port (j_Asset job)\<rparr>
       \<and> (a_Port a \<noteq> 0 \<longrightarrow> a_Port (j_Asset job) = a_Port a)
       \<and> (a_Port a = 0 \<longrightarrow>
            a_Port (j_Asset job) = (if j_Protocol job = ''telnet'' then 23 else 22))"
  using assms by (auto simp: makeJob_def Let_def split: if_splits)

lemma enqueueJobs_origin:
  assumes "job \<in> set (enqueueJobs lower getenv outDir cfg)"
  shows "\<exists>g \<in> set (c_Groups cfg). \<exists>a \<in> set (g_Assets g). \<exists>timeout v gp.
           makeJob lower getenv timeout outDir g v gp a = Some job"
  using assms
  by (auto simp: enqueueJobs_def groupJobs_def Let_def List.map_filter_def) blast

text \<open>
  C9. Whatever \<open>strings.ToLower\<close> does, every job on the queue has a port other than 0: it comes from an asset of the
  configuration whose other fields are unchanged; a configured port other than 0 is kept,
  and a configured port 0 becomes 23 when the job's protocol is telnet and 22 otherwise.
\<close>

theorem enqueue_port_never_zero:
  assumes "job \<in> set (enqueueJobs lower getenv outDir cfg)"
  shows "a_Port (j_Asset job) \<noteq> 0
       \<and> (\<exists>g \<in> set (c_Groups cfg). \<exists>a \<in> set (g_Assets g).
            j_Asset job = a\<lparr>a_Port := a_Port (j_Asset job)\<rparr>
          \<and> (a_Port a \<noteq> 0 \<longrightarrow> a_Port (j_Asset job) = a_Port a)
          \<and> (a_Port a = 0 \<longrightarrow>
               a_Port (j_Asset job) = (if j_Protocol job = ''telnet'' then 23 else 22)))"
proof -
  from enqueueJobs_origin [OF assms] obtain g a timeout v gp
    where g: "g \<in> set (c_Groups cfg)" and a: "a \<in> set (g_Assets g)"
      and mk: "makeJob lower getenv timeout outDir g v gp a = Some job"
    by blast
  from makeJob_port [OF mk] g a show ?thesis
    by blast
qed

theorem enqueue_port_never_zero_witness:
  "exJob \<in> set (enqueueJobs asciiLower (\<lambda>_. []) ''out/d'' exConfig)
   \<and> a_Port exAsset = 0 \<and> a_Port (j_Asset exJob) = 23"
proof -
  have h: "exJob \<in> set (enqueueJobs asciiLower (\<lambda>_. []) ''out/d'' exConfig)"
    by code_simp
  have "a_Port (j_Asset exJob) \<noteq> 0"
    using enqueue_port_never_zero [OF h] by blast
  then show ?thesis
    using h by (simp add: exJob_def exAsset_def)
qed

subsection \<open>The vendor tables and the unknown vendor\<close>

text \<open>
  C2, as stated, fails: for a vendor outside the enumeration \<open>promptsForVendor\<close> does
  not fail, it returns its fallback prompts.
\<close>

theorem unknown_vendor_prompts_counterexample:
  "commandsForVendor ''cisco'' = Inl (UnknownVendor ''cisco'')
   \<and> promptsForVendor ''cisco'' = [''>'', ''#'', ''$'']"
  by (simp add: commandsForVendor_def promptsForVendor_def)

text \<open>
  C2, amended. For \<open>huawei\<close> and \<open>zte\<close> both tables are non-empty. For every other
  vendor string \<open>commandsForVendor\<close> fails with the unknown-vendor error, while
  \<open>promptsForVendor\<close> returns the fallback prompts \<open>>\<close>, \<open>#\<close>, \<open>$\<close>; and
  \<open>runJob\<close> for such a vendor returns (the cancellation error when the context is
  already done, the unknown-vendor error otherwise) with an empty trace, that is, before
  any connection is attempted.
\<close>

theorem vendor_tables:
  "(vendor \<in> {''huawei'', ''zte''} \<longrightarrow>
      (\<exists>cmds. commandsForVendor vendor = Inr cmds \<and> cmds \<noteq> [])
      \<and> promptsForVendor vendor \<noteq> [])
   \<and> (vendor \<notin> {''huawei'', ''zte''} \<longrightarrow>
        commandsForVendor vendor = Inl (UnknownVendor vendor)
        \<and> promptsForVendor vendor = [''>'', ''#'', ''$'']
        \<and> (j_Vendor job = vendor \<longrightarrow>
             runJob lower done env job
               = Some (Some (if done then Canceled else UnknownVendor vendor), [])))"
  by (auto simp: commandsForVendor_def promptsForVendor_def runJob_def)

theorem vendor_tables_witness:
  "(''zte'' \<in> {''huawei'', ''zte''} \<and> promptsForVendor ''zte'' \<noteq> []
     \<and> (\<exists>cmds. commandsForVendor ''zte'' = Inr cmds \<and> cmds \<noteq> []))
   \<and> (''cisco'' \<notin> {''huawei'', ''zte''}
     \<and> j_Vendor (exJob\<lparr>j_Vendor := ''cisco''\<rparr>) = ''cisco''
     \<and> runJob asciiLower False (exJobEnv exOkObs) (exJob\<lparr>j_Vendor := ''cisco''\<rparr>)
         = Some (Some (UnknownVendor ''cisco''), []))"
  using vendor_tables [where vendor = "''zte''" and job = exJob and lower = asciiLower
      and ?done = False and env = "exJobEnv exOkObs"]
    vendor_tables [where vendor = "''cisco''" and job = "exJob\<lparr>j_Vendor := ''cisco''\<rparr>"
      and lower = asciiLower and ?done = False and env = "exJobEnv exOkObs"]
  by simp

subsection \<open>Cancellation before a job starts\<close>

text \<open>
  C8. When the context is already done as the Retry Controller is entered (with the
  retry count that \<open>main\<close> passes), it returns the cancellation error itself, at once
  and with an empty trace: the executor is not called, so no connection is attempted.
  The executor, entered with a context that is done, returns the cancellation error
  itself with an empty trace: no dial, no read, no write.
\<close>

theorem cancelled_before_start:
  "(ctxDone cancelAt clock \<longrightarrow>
      runJobWithRetry cancelAt run job (c_MaxRetries (applyDefaults cfg)) clock
        = Some (Some Canceled, clock, []))
   \<and> runJob lower True env job = Some (Some Canceled, [])"
proof -
  have "0 \<le> c_MaxRetries (applyDefaults cfg)"
    by (simp add: applyDefaults_def Let_def)
  then have "ctxDone cancelAt clock \<longrightarrow>
      runJobWithRetry cancelAt run job (c_MaxRetries (applyDefaults cfg)) clock
        = Some (Some Canceled, clock, [])"
    unfolding runJobWithRetry_def by (subst retryLoop.simps) simp
  then show ?thesis
    by (simp add: runJob_def)
qed

theorem cancelled_before_start_witness:
  "ctxDone (Some 0) 5
   \<and> runJobWithRetry (Some 0) (\<lambda>attempt clock. Some (None, 1)) exJob
        (c_MaxRetries (applyDefaults exConfig)) 5 = Some (Some Canceled, 5, [])"
  using cancelled_before_start [of "Some 0" 5 "\<lambda>attempt clock. Some (None, 1)" exJob exConfig]
  by (simp add: ctxDone_def)

subsection \<open>The read loops\<close>

lemma contains_sublist: "contains s sub \<longleftrightarrow> sublist sub s"
  by (induction s) (simp_all add: sublist_Cons_right)

lemma anyPrompt_iff: "anyPrompt out ps \<longleftrightarrow> (\<exists>p \<in> set ps. sublist p out)"
  by (simp add: anyPrompt_def list_ex_iff contains_sublist)









text \<open>A silent stretch of reads only grows the buffer.\<close>

lemma readTelnetLoop_silent:
  "silent prompts buf pre \<Longrightarrow>
   readTelnetLoop prompts buf (pre @ rest) = readTelnetLoop prompts (buf @ received pre) rest"
  by (induction pre arbitrary: buf) (auto simp: received_def Let_def)

lemma readPromptLoop_silent:
  "silentCtx prompts buf pre \<Longrightarrow>
   readPromptLoop prompts buf (pre @ rest) = readPromptLoop prompts (buf @ received pre) rest"
  by (induction pre arbitrary: buf) (auto simp: received_def Let_def silentCtx_def)

text \<open>
  C5. Let the reads \<open>pre\<close> have kept the loop going, and let the next read deliver a
  non-empty chunk before the deadline. If some prompt occurs anywhere in everything
  received so far (the earlier chunks followed by the new one, so also a prompt that
  straddles chunks), then \<open>readUntilPrompt\<close> and \<open>readTelnetOutput\<close> return at this
  read, without error, and the returned text is the whole accumulated buffer, the prompt
  included.
\<close>

theorem read_matches_whole_buffer:
  assumes "\<not> ob_expired ob" and "ob_data ob \<noteq> []"
    and "p \<in> set prompts" and "sublist p (received pre @ ob_data ob)"
  shows "(silentCtx prompts [] pre \<and> \<not> ob_done ob \<longrightarrow>
            readUntilPrompt (pre @ ob # rest) prompts
              = Some (received pre @ ob_data ob, None))
       \<and> (silent prompts [] pre \<longrightarrow>
            readTelnetOutput (pre @ ob # rest) prompts
              = Some (received pre @ ob_data ob, None))"
proof -
  from assms(3,4) have m: "anyPrompt (received pre @ ob_data ob) prompts"
    by (auto simp: anyPrompt_iff)
  show ?thesis
    using assms(1,2) m
    by (simp add: readUntilPrompt_def readTelnetOutput_def readPromptLoop_silent
        readTelnetLoop_silent Let_def)
qed

theorem read_matches_whole_buffer_witness:
  "\<not> ob_expired (exChunk ''#cd'') \<and> ob_data (exChunk ''#cd'') \<noteq> []
   \<and> ''b#'' \<in> set [''>'', ''b#'']
   \<and> sublist ''b#'' (received [exChunk ''xa'', exChunk ''b''] @ ob_data (exChunk ''#cd''))
   \<and> silentCtx [''>'', ''b#''] [] [exChunk ''xa'', exChunk ''b'']
   \<and> \<not> ob_done (exChunk ''#cd'')
   \<and> readUntilPrompt [exChunk ''xa'', exChunk ''b'', exChunk ''#cd'', exChunk ''>'']
        [''>'', ''b#''] = Some (''xab#cd'', None)
   \<and> readTelnetOutput [exChunk ''xa'', exChunk ''b'', exChunk ''#cd'', exChunk ''>'']
        [''>'', ''b#''] = Some (''xab#cd'', None)"
proof -
  have h1: "\<not> ob_expired (exChunk ''#cd'')" and h2: "ob_data (exChunk ''#cd'') \<noteq> []"
    and h5: "\<not> ob_done (exChunk ''#cd'')"
    by (simp_all add: exChunk_def)
  have h3: "''b#'' \<in> set [''>'', ''b#'']"
    by simp
  have h4: "sublist ''b#''
              (received [exChunk ''xa'', exChunk ''b''] @ ob_data (exChunk ''#cd''))"
    by code_simp
  have h6: "silentCtx [''>'', ''b#''] [] [exChunk ''xa'', exChunk ''b'']"
    by code_simp
  have h7: "silent [''>'', ''b#''] [] [exChunk ''xa'', exChunk ''b'']"
    using h6 by (simp add: silentCtx_def)
  have r: "received [exChunk ''xa'', exChunk ''b''] @ ob_data (exChunk ''#cd'') = ''xab#cd''"
    by (simp add: received_def exChunk_def)
  show ?thesis
    using read_matches_whole_buffer [OF h1 h2 h3 h4, of "[exChunk ''>'']"] h1 h2 h3 h4 h5 h6 h7
    by (simp add: r)
qed

text \<open>
  C6. Let the reads \<open>pre\<close> have kept the loop going, and let the next read, before the
  deadline, return end-of-stream. Then \<open>readUntilPrompt\<close> and \<open>readTelnetOutput\<close>
  return everything received so far, the bytes of this last read included, and no error.
\<close>

theorem eof_is_success:
  assumes "\<not> ob_expired ob" and "ob_err ob = Some EOF"
  shows "(silentCtx prompts [] pre \<and> \<not> ob_done ob \<longrightarrow>
            readUntilPrompt (pre @ ob # rest) prompts
              = Some (received pre @ ob_data ob, None))
       \<and> (silent prompts [] pre \<longrightarrow>
            readTelnetOutput (pre @ ob # rest) prompts
              = Some (received pre @ ob_data ob, None))"
  using assms
  by (simp add: readUntilPrompt_def readTelnetOutput_def readPromptLoop_silent
      readTelnetLoop_silent Let_def)

theorem eof_is_success_witness:
  "\<not> ob_expired (exLast ''ye'' EOF) \<and> ob_err (exLast ''ye'' EOF) = Some EOF
   \<and> silentCtx [''>''] [] [exChunk ''b'']
   \<and> \<not> ob_done (exLast ''ye'' EOF)
   \<and> readUntilPrompt [exChunk ''b'', exLast ''ye'' EOF] [''>''] = Some (''bye'', None)
   \<and> readTelnetOutput [exChunk ''b'', exLast ''ye'' EOF] [''>''] = Some (''bye'', None)"
proof -
  have h1: "\<not> ob_expired (exLast ''ye'' EOF)" and h2: "ob_err (exLast ''ye'' EOF) = Some EOF"
    and h3: "\<not> ob_done (exLast ''ye'' EOF)"
    by (simp_all add: exLast_def)
  have h4: "silentCtx [''>''] [] [exChunk ''b'']"
    by code_simp
  have h5: "silent [''>''] [] [exChunk ''b'']"
    using h4 by (simp add: silentCtx_def)
  have r: "received [exChunk ''b''] @ ob_data (exLast ''ye'' EOF) = ''bye''"
    by (simp add: received_def exChunk_def exLast_def)
  show ?thesis
    using eof_is_success [OF h1 h2, of "[''>'']" "[exChunk ''b'']" "[]"] h1 h2 h3 h4 h5
    by (simp add: r)
qed



subsection \<open>A failed write in the command loops\<close>

text \<open>
  C1, as stated, fails on the SSH path: the write of the first command fails, the loop
  returns at once with the write error, the second command is never sent, and the job
  ends with that error.
\<close>

theorem ssh_write_failure_counterexample:
  "sshCmds [''>''] exCmdObs [''show version'', ''show license''] 0 [] []
     = Some (cmdHeader ''show version'',
             Some (WriteCmd ''show version'' (External ''broken pipe'')),
             [Send (''show version'' @ [CHR 0x0A])])
   \<and> runJob asciiLower False (exJobEnv exCmdObs) exSshJob
     = Some (Some (WriteCmd ''terminal length 0'' (External ''broken pipe'')),
             [Net (Log ''INFO'' ''conectando via ssh'' [(''address'', FS ''10.0.0.1:22'')]),
              Net (Dial ''tcp'' ''10.0.0.1:22''),
              Net (Send (''terminal length 0'' @ [CHR 0x0A]))])"
  by code_simp

lemma telnetCmds_error:
  "telnetCmds prompts obs cmds i result tr = Some (res, Some e, tr') \<Longrightarrow> e = Canceled"
  by (induction cmds arbitrary: i result tr)
     (auto split: if_splits option.splits prod.splits)

text \<open>
  C1, amended. Let the write of a non-blank command fail while the context is not done.
  On the Telnet path the loop records the attempted send and a warning and goes on with
  the remaining commands, the transcript holding the header of the skipped command; and
  whatever the writes do, the only error with which the Telnet loop ever returns is
  cancellation. On the SSH path the loop returns at once with the \<open>write cmd\<close> error
  and the transcript so far.
\<close>

theorem write_failure_handling:
  assumes "\<not> co_done (obs i)" and "trimSpace c \<noteq> []" and "co_write (obs i) = Some e"
  shows "telnetCmds prompts obs (c # cmds) i result tr
           = telnetCmds prompts obs cmds (Suc i) (result @ cmdHeader (trimSpace c))
               (tr @ [Send (trimSpace c @ [CHR 0x0A]),
                      Log ''WARN'' ''erro enviando comando''
                        [(''cmd'', FS (trimSpace c)), (''error'', FE e)]])
       \<and> (\<forall>cs j res0 tr0 res e' tr'.
             telnetCmds prompts obs cs j res0 tr0 = Some (res, Some e', tr') \<longrightarrow> e' = Canceled)
       \<and> sshCmds prompts obs (c # cmds) i result tr
           = Some (result @ cmdHeader (trimSpace c), Some (WriteCmd (trimSpace c) e),
                   tr @ [Send (trimSpace c @ [CHR 0x0A])])"
  using assms by (auto dest: telnetCmds_error)

theorem write_failure_handling_witness:
  "\<not> co_done (exCmdObs 0) \<and> trimSpace ''show version'' \<noteq> []
   \<and> co_write (exCmdObs 0) = Some (External ''broken pipe'')
   \<and> telnetCmds [''>''] exCmdObs [''show version'', ''show license''] 0 [] []
       = Some (cmdHeader ''show version'' @ cmdHeader ''show license'' @ ''ok>'', None,
               [Send (''show version'' @ [CHR 0x0A]),
                Log ''WARN'' ''erro enviando comando''
                  [(''cmd'', FS ''show version''), (''error'', FE (External ''broken pipe''))],
                Send (''show license'' @ [CHR 0x0A])])"
proof -
  have h1: "\<not> co_done (exCmdObs 0)"
    and h3: "co_write (exCmdObs 0) = Some (External ''broken pipe'')"
    by (simp_all add: exCmdObs_def)
  have h2: "trimSpace ''show version'' \<noteq> []"
    by code_simp
  have "telnetCmds [''>''] exCmdObs [''show version'', ''show license''] 0 [] []
          = telnetCmds [''>''] exCmdObs [''show license''] (Suc 0)
              ([] @ cmdHeader (trimSpace ''show version''))
              ([] @ [Send (trimSpace ''show version'' @ [CHR 0x0A]),
                     Log ''WARN'' ''erro enviando comando''
                       [(''cmd'', FS (trimSpace ''show version'')),
                        (''error'', FE (External ''broken pipe''))]])"
    using write_failure_handling [where obs = exCmdObs and i = 0 and c = "''show version''"
        and e = "External ''broken pipe''" and prompts = "[''>'']"
        and cmds = "[''show license'']" and result = "[]" and tr = "[]", OF h1 h2 h3]
    by (rule conjunct1)
  also have "\<dots> = Some (cmdHeader ''show version'' @ cmdHeader ''show license'' @ ''ok>'', None,
               [Send (''show version'' @ [CHR 0x0A]),
                Log ''WARN'' ''erro enviando comando''
                  [(''cmd'', FS ''show version''), (''error'', FE (External ''broken pipe''))],
                Send (''show license'' @ [CHR 0x0A])])"
    by code_simp
  finally show ?thesis
    using h1 h2 h3 by simp
qed

subsection \<open>Where the transcript is written\<close>

lemma sanitize_eq:
  "sanitize s = map (\<lambda>c. if c \<in> {CHR '':'', CHR ''/'', CHR 0x5C, CHR '' ''} then CHR ''_'' else c)
                  (trimSpace s)"
  by (auto simp: sanitize_def replaceAll_def Let_def)

lemma sanitize_chars:
  "c \<in> set (sanitize s) \<Longrightarrow> c \<notin> {CHR '':'', CHR ''/'', CHR 0x5C, CHR '' ''}"
  by (auto simp: sanitize_eq split: if_splits)

lemma pad2_chars: "c \<in> set (pad2 n) \<Longrightarrow> c \<in> set ''0123456789''"
proof -
  have "\<And>k. k < 10 \<Longrightarrow> ''0123456789'' ! k \<in> set ''0123456789''"
    by (rule nth_mem) simp
  then have "''0123456789'' ! (n div 10 mod 10) \<in> set ''0123456789''"
    and "''0123456789'' ! (n mod 10) \<in> set ''0123456789''"
    by simp_all
  then show "c \<in> set (pad2 n) \<Longrightarrow> c \<in> set ''0123456789''"
    unfolding pad2_def by auto
qed

lemma timestamp_chars: "c \<in> set (timestamp hms) \<Longrightarrow> c \<noteq> CHR ''/'' \<and> c \<noteq> CHR 0x5C"
  by (cases hms) (auto simp: timestamp_def dest!: pad2_chars)

lemma transcriptName_chars:
  assumes "j_Vendor job \<in> {''huawei'', ''zte''}" and "j_Protocol job \<in> {''telnet'', ''ssh''}"
  shows "CHR ''/'' \<notin> set (transcriptName hms job) \<and> CHR 0x5C \<notin> set (transcriptName hms job)"
  using assms by (auto simp: transcriptName_def dest: sanitize_chars timestamp_chars)

lemma transcriptName_proper: "transcriptName hms job \<notin> {[], ''.'', ''..''}"
proof -
  have "CHR ''_'' \<in> set (transcriptName hms job)"
    by (simp add: transcriptName_def)
  then show ?thesis by auto
qed

lemma splitOn_nonempty: "splitOn sep s \<noteq> []"
  by (induction s) (auto split: list.splits)

lemma splitOn_nosep: "sep \<notin> set s \<Longrightarrow> splitOn sep s = [s]"
  by (induction s) auto

lemma splitOn_append: "splitOn sep (a @ sep # b) = splitOn sep a @ splitOn sep b"
  by (induction a) (auto split: list.splits simp: splitOn_nonempty)

lemma pathElems_append:
  assumes "base \<noteq> []" and "CHR ''/'' \<notin> set fn" and "fn \<notin> {[], ''.'', ''..''}"
  shows "isRooted (base @ ''/'' @ fn) = isRooted base
       \<and> pathElems (base @ ''/'' @ fn) = pathElems base @ [fn]"
proof -
  from assms(1) have r: "isRooted (base @ CHR ''/'' # fn) = isRooted base"
    by (cases base) (simp_all add: isRooted_def)
  have s: "splitOn (CHR ''/'') (base @ CHR ''/'' # fn) = splitOn (CHR ''/'') base @ [fn]"
    using assms(2) by (simp add: splitOn_append splitOn_nosep)
  from assms(3) have c: "\<And>st. cleanStep (isRooted base) st fn = st @ [fn]"
    by (simp add: cleanStep_def)
  show ?thesis
    by (simp add: r pathElems_def s c)
qed

lemma Join_two:
  assumes "CHR ''/'' \<notin> set fn" and "fn \<notin> {[], ''.'', ''..''}"
  shows "Join [base, fn] = renderPath (isRooted base) (pathElems base @ [fn])"
proof (cases "base = []")
  case True
  from assms have nr: "\<not> isRooted fn"
    by (cases fn) (auto simp: isRooted_def)
  from assms have pe: "pathElems fn = [fn]"
    by (simp add: pathElems_def splitOn_nosep cleanStep_def)
  have pb: "pathElems [] = []" and rb: "\<not> isRooted []"
    by (simp_all add: pathElems_def cleanStep_def isRooted_def)
  from assms(2) have "Join [base, fn] = Clean fn"
    using True by (simp add: Join_def)
  then show ?thesis
    using True nr pe pb rb by (simp add: Clean_def)
next
  case False
  then have "Join [base, fn] = Clean (base @ ''/'' @ fn)"
    by (simp add: Join_def)
  then show ?thesis
    using pathElems_append [OF False assms] by (simp add: Clean_def)
qed

lemma finishJob_write:
  "finishJob env job r0 = Some (r, tr) \<Longrightarrow> WriteFile path out \<in> set tr \<Longrightarrow>
   path = transcriptPath (je_hms env) job"
  by (auto simp: finishJob_def split: option.splits prod.splits)

lemma runJob_write:
  assumes "runJob lower done env job = Some (r, tr)" and "WriteFile path out \<in> set tr"
  shows "path = transcriptPath (je_hms env) job
       \<and> j_Vendor job \<in> {''huawei'', ''zte''} \<and> j_Protocol job \<in> {''telnet'', ''ssh''}"
  using assms
  by (auto simp: runJob_def commandsForVendor_def Let_def
           split: if_splits sum.splits dest: finishJob_write)

text \<open>
  C10, as stated, fails in one clause: \<open>sanitize\<close> does not replace every space by
  an underscore, the spaces at both ends of the string are removed.
\<close>

theorem sanitize_trims_counterexample:
  "sanitize '' a b '' = ''a_b'' \<and> sanitize '' a b '' \<noteq> ''_a_b_''"
  by code_simp

text \<open>
  C10, amended. Whenever \<open>runJob\<close> writes a transcript, the path is the cleaned
  output directory of the job followed by exactly one more element, the file name; the
  file name holds neither \<open>/\<close> nor a backslash; and \<open>sanitize\<close> is the string
  without the white space at its two ends and with every colon, slash, backslash and
  space that is left replaced by an underscore.
\<close>

theorem transcript_path_inside_basedir:
  assumes "runJob lower done env job = Some (r, tr)" and "WriteFile path out \<in> set tr"
  shows "path = renderPath (isRooted (j_BaseDir job))
                  (pathElems (j_BaseDir job) @ [transcriptName (je_hms env) job])
       \<and> CHR ''/'' \<notin> set (transcriptName (je_hms env) job)
       \<and> CHR 0x5C \<notin> set (transcriptName (je_hms env) job)
       \<and> (\<forall>s. sanitize s
               = map (\<lambda>c. if c \<in> {CHR '':'', CHR ''/'', CHR 0x5C, CHR '' ''}
                          then CHR ''_'' else c)
                   (trimSpace s))"
proof -
  from runJob_write [OF assms]
  have p: "path = transcriptPath (je_hms env) job"
    and v: "j_Vendor job \<in> {''huawei'', ''zte''}"
    and pr: "j_Protocol job \<in> {''telnet'', ''ssh''}"
    by simp_all
  from transcriptName_chars [OF v pr, of "je_hms env"]
  have c1: "CHR ''/'' \<notin> set (transcriptName (je_hms env) job)"
    and c2: "CHR 0x5C \<notin> set (transcriptName (je_hms env) job)"
    by simp_all
  from Join_two [OF c1 transcriptName_proper] p
  have "path = renderPath (isRooted (j_BaseDir job))
                  (pathElems (j_BaseDir job) @ [transcriptName (je_hms env) job])"
    by (simp add: transcriptPath_def)
  with c1 c2 sanitize_eq show ?thesis
    by blast
qed

text \<open>The example SSH session runs to its end and the transcript is written.\<close>

lemma exOkObs_sshCmds:
  assumes "readUntilPrompt [exChunk ''ok>''] prompts = Some (''ok>'', None)"
  shows "\<exists>res tr'. sshCmds prompts exOkObs cmds i result tr = Some (res, None, tr')"
  using assms
  by (induction cmds arbitrary: i result tr) (simp_all add: exOkObs_def)

lemma exOkObs_collectSSH:
  "\<exists>res tr. collectSSH (exSshEnv exOkObs) exSshJob cmds [''#'', ''>''] = Some (res, None, tr)"
proof -
  have a: "readUntilPrompt [exChunk ''ok>''] [''#'', ''>''] = Some (''ok>'', None)"
    by code_simp
  have b: "readUntilPrompt [exChunk ''sw1>''] [''#'', ''>''] = Some (''sw1>'', None)"
    by code_simp
  from exOkObs_sshCmds [OF a]
  obtain res tr'
    where "sshCmds [''#'', ''>''] exOkObs cmds 0 (transcriptHeader exSshJob ''ssh'' ''2024-01-01T09:05:59Z'')
             [Log ''INFO'' ''conectando via ssh'' [(''address'', FS (addrOf exSshJob))],
              Dial ''tcp'' (addrOf exSshJob)] = Some (res, None, tr')"
    by blast
  then show ?thesis
    by (simp add: collectSSH_def exSshEnv_def b)
qed

lemma exOkObs_runJob:
  "\<exists>out tr. runJob asciiLower False (exJobEnv exOkObs) exSshJob
     = Some (None, tr @ [WriteFile (transcriptPath (9, 5, 59) exSshJob) out])"
proof -
  obtain cmds where c: "commandsForVendor ''zte'' = Inr cmds"
    by (simp add: commandsForVendor_def)
  from exOkObs_collectSSH [of cmds] obtain res tr
    where "collectSSH (exSshEnv exOkObs) exSshJob cmds [''#'', ''>''] = Some (res, None, tr)"
    by blast
  then have "runJob asciiLower False (exJobEnv exOkObs) exSshJob
               = Some (None, map Net tr @ [WriteFile (transcriptPath (9, 5, 59) exSshJob) res])"
    using c by (simp add: runJob_def exSshJob_def exJobEnv_def promptsForVendor_def finishJob_def)
  then show ?thesis
    by blast
qed

theorem transcript_path_inside_basedir_witness:
  "\<exists>r tr out.
     runJob asciiLower False (exJobEnv exOkObs) exSshJob = Some (r, tr)
     \<and> WriteFile ''out/d/core_sw_1__10.0.0.1__zte__ssh__090559.txt'' out \<in> set tr
     \<and> ''out/d/core_sw_1__10.0.0.1__zte__ssh__090559.txt''
         = renderPath (isRooted (j_BaseDir exSshJob))
             (pathElems (j_BaseDir exSshJob) @ [transcriptName (9, 5, 59) exSshJob])
     \<and> transcriptName (9, 5, 59) exSshJob = ''core_sw_1__10.0.0.1__zte__ssh__090559.txt''"
proof -
  have path: "transcriptPath (9, 5, 59) exSshJob
                = ''out/d/core_sw_1__10.0.0.1__zte__ssh__090559.txt''"
    by code_simp
  have name: "transcriptName (9, 5, 59) exSshJob = ''core_sw_1__10.0.0.1__zte__ssh__090559.txt''"
    by code_simp
  have hms: "je_hms (exJobEnv exOkObs) = (9, 5, 59)"
    by (simp add: exJobEnv_def)
  from exOkObs_runJob obtain out tr0
    where run: "runJob asciiLower False (exJobEnv exOkObs) exSshJob
                  = Some (None, tr0 @ [WriteFile (transcriptPath (9, 5, 59) exSshJob) out])"
    by blast
  have wr: "WriteFile ''out/d/core_sw_1__10.0.0.1__zte__ssh__090559.txt'' out
              \<in> set (tr0 @ [WriteFile (transcriptPath (9, 5, 59) exSshJob) out])"
    by (simp add: path)
  from transcript_path_inside_basedir [OF run wr]
  have "''out/d/core_sw_1__10.0.0.1__zte__ssh__090559.txt''
          = renderPath (isRooted (j_BaseDir exSshJob))
              (pathElems (j_BaseDir exSshJob) @ [transcriptName (9, 5, 59) exSshJob])"
    by (simp only: hms)
  with run wr name show ?thesis
    by blast
qed

subsection \<open>The Retry Controller\<close>

lemma wrap64_id: "- 9223372036854775808 \<le> x \<Longrightarrow> x < 9223372036854775808 \<Longrightarrow> wrap64 x = x"
  by (simp add: wrap64_def sint_sbintrunc' signed_take_bit_int_eq_self)

lemma wrap64_le: "wrap64 x \<le> 9223372036854775807"
  using sint_lt [of "word_of_int x :: 64 word"] by (simp add: wrap64_def)

lemma wrap64_succ: "wrap64 (wrap64 x + 1) = wrap64 (x + 1)"
  by (simp add: wrap64_def)

lemma backoffOf_seconds:
  assumes "0 \<le> i" and "i \<le> 4611686018"
  shows "backoffOf i = i * 2 * 1000000000"
proof -
  from assms have a: "wrap64 i = i"
    by (intro wrap64_id) simp_all
  from assms have b: "wrap64 (i * 2) = i * 2"
    by (intro wrap64_id) simp_all
  from assms have c: "wrap64 (i * 2 * 1000000000) = i * 2 * 1000000000"
    by (intro wrap64_id) simp_all
  show ?thesis
    by (simp only: backoffOf_def a b c)
qed

text \<open>The three ways a turn of the loop can go.\<close>

lemma retryLoop_done:
  "a \<le> N \<Longrightarrow> ctxDone cancelAt clock \<Longrightarrow>
   retryLoop cancelAt run job N a lastErr clock tr = Some (Some Canceled, clock, tr)"
  by (subst retryLoop.simps) simp

lemma retryLoop_end:
  "\<not> a \<le> N \<Longrightarrow>
   retryLoop cancelAt run job N a lastErr clock tr
     = Some (Some (Exhausted (wrap64 (N + 1)) lastErr), clock, tr)"
  by (subst retryLoop.simps) simp

lemma retryLoop_step:
  assumes "a \<le> N" and "\<not> ctxDone cancelAt clock"
  shows "retryLoop cancelAt run job N a lastErr clock tr =
     (case run a (if 0 < a then afterSleep clock (backoffOf a) else clock) of
        None \<Rightarrow> None
      | Some (None, d) \<Rightarrow>
          Some (None, (if 0 < a then afterSleep clock (backoffOf a) else clock) + d,
                tr @ attemptEvents job N a)
      | Some (Some e, d) \<Rightarrow>
          retryLoop cancelAt run job N (wrap64 (a + 1)) (Some e)
            ((if 0 < a then afterSleep clock (backoffOf a) else clock) + d)
            (tr @ attemptEvents job N a))"
  using assms
  by (subst retryLoop.simps) (simp add: attemptEvents_def Let_def split: option.splits)

text \<open>
  The shape of the trace of any call that returns. The loop need not end, so this is
  proved by induction over the unfoldings of the loop; \<open>j\<close> counts the turns made so
  far, and the counter of the loop is \<open>wrap64 j\<close>.
\<close>

lemma retryLoop_shape:
  assumes "retryLoop cancelAt run job N a lastErr clock tr = Some y"
  shows "\<forall>j. a = wrap64 j \<longrightarrow>
           (\<exists>k. j \<le> k
              \<and> snd (snd y) = tr @ concat (map (\<lambda>i. attemptEvents job N (wrap64 i)) [j..k - 1])
              \<and> (N < 9223372036854775807 \<and> 0 \<le> j \<and> j \<le> 9223372036854775807
                   \<longrightarrow> k \<le> N + 1 \<or> k = j))"
  using assms
proof (induction cancelAt run job N a lastErr clock tr y
    rule: retryLoop.raw_induct [rotated -1, consumes 1])
  case (1 f cancelAt run job N a lastErr clock tr y)
  show ?case
  proof (intro allI impI)
    fix j
    assume aj: "a = wrap64 j"
    let ?Q = "\<lambda>k. j \<le> k
              \<and> snd (snd y) = tr @ concat (map (\<lambda>i. attemptEvents job N (wrap64 i)) [j..k - 1])
              \<and> (N < 9223372036854775807 \<and> 0 \<le> j \<and> j \<le> 9223372036854775807
                   \<longrightarrow> k \<le> N + 1 \<or> k = j)"
    have small: "N < 9223372036854775807 \<and> 0 \<le> j \<and> j \<le> 9223372036854775807 \<Longrightarrow> a = j"
      using aj by (simp add: wrap64_id)
    show "\<exists>k. ?Q k"
    proof (cases "a \<le> N \<and> \<not> ctxDone cancelAt clock")
      case False
      with 1(2) have "snd (snd y) = tr"
        by (auto split: if_splits)
      then have "?Q j" by simp
      then show ?thesis ..
    next
      case True
      let ?c1 = "if 0 < a then afterSleep clock (backoffOf a) else clock"
      note body = 1(2)
      show ?thesis
      proof (cases "run a ?c1")
        case None
        with True body show ?thesis by (simp add: Let_def)
      next
        case (Some res)
        obtain err d where res: "res = (err, d)" by (cases res)
        show ?thesis
        proof (cases err)
          case None
          with True body Some res have "snd (snd y) = tr @ attemptEvents job N (wrap64 j)"
            using aj by (auto simp: Let_def attemptEvents_def)
          moreover have "[j..j + 1 - 1] = [j]" by simp
          ultimately have "?Q (j + 1)"
            using small True by auto
          then show ?thesis ..
        next
          case (Some e)
          with True body \<open>run a ?c1 = Some res\<close> res
          have rec: "f cancelAt run job N (wrap64 (a + 1)) (Some e) (?c1 + d)
                       (tr @ attemptEvents job N a) = Some y"
            by (auto simp: Let_def attemptEvents_def)
          have "wrap64 (a + 1) = wrap64 (j + 1)"
            using aj by (simp add: wrap64_succ)
          with 1(1) [OF rec] obtain k
            where k: "j + 1 \<le> k"
              and t: "snd (snd y) = (tr @ attemptEvents job N a)
                        @ concat (map (\<lambda>i. attemptEvents job N (wrap64 i)) [j + 1..k - 1])"
              and b: "N < 9223372036854775807 \<and> 0 \<le> j + 1 \<and> j + 1 \<le> 9223372036854775807
                        \<longrightarrow> k \<le> N + 1 \<or> k = j + 1"
            by blast
          from k have "[j..k - 1] = j # [j + 1..k - 1]"
            by (simp add: upto_rec1)
          with t aj
          have t': "snd (snd y)
                      = tr @ concat (map (\<lambda>i. attemptEvents job N (wrap64 i)) [j..k - 1])"
            by simp
          have "N < 9223372036854775807 \<and> 0 \<le> j \<and> j \<le> 9223372036854775807
                  \<longrightarrow> k \<le> N + 1 \<or> k = j"
            using b small True by auto
          with k t' have "?Q k" by simp
          then show ?thesis ..
        qed
      qed
    qed
  qed
qed

lemma attempts_unwrapped:
  assumes "k \<le> 9223372036854775808"
  shows "map (\<lambda>i. attemptEvents job N (wrap64 i)) [0..k - 1] = map (attemptEvents job N) [0..k - 1]"
proof (rule map_cong [OF refl])
  fix i assume "i \<in> set [0..k - 1]"
  with assms have "wrap64 i = i"
    by (intro wrap64_id) auto
  then show "attemptEvents job N (wrap64 i) = attemptEvents job N i"
    by simp
qed

lemma runCalls_append: "runCalls (xs @ ys) = runCalls xs @ runCalls ys"
  by (induction xs rule: runCalls.induct) simp_all

lemma runCalls_attempt: "runCalls (attemptEvents job N i) = [i]"
  by (simp add: attemptEvents_def)

lemma runCalls_attempts: "runCalls (concat (map (attemptEvents job N) is)) = is"
  by (induction "is") (simp_all add: runCalls_append runCalls_attempt)

text \<open>An executor that always fails, below the largest retry count: the loop ends.\<close>

lemma retryLoop_all_fail:
  assumes fails: "\<forall>i c. \<exists>e d. run i c = Some (Some e, d)"
    and big: "N < 9223372036854775807"
  shows "0 \<le> a \<Longrightarrow> a \<le> N \<Longrightarrow>
     \<exists>e d cN c. retryLoop None run job N a lastErr clock tr
                   = Some (Some (Exhausted (N + 1) (Some e)), c,
                           tr @ concat (map (attemptEvents job N) [a..N]))
               \<and> run N cN = Some (Some e, d)"
proof (induction "nat (N - a)" arbitrary: a lastErr clock tr)
  case 0
  then have a: "a = N" by simp
  let ?c1 = "if 0 < a then afterSleep clock (backoffOf a) else clock"
  from fails obtain e d where r: "run a ?c1 = Some (Some e, d)" by blast
  have nd: "\<not> ctxDone None clock" by (simp add: ctxDone_def)
  from big "0.prems" a have w: "wrap64 (a + 1) = a + 1" "wrap64 (N + 1) = N + 1"
    by (simp_all add: wrap64_id)
  have "retryLoop None run job N a lastErr clock tr
          = retryLoop None run job N (a + 1) (Some e) (?c1 + d) (tr @ attemptEvents job N a)"
    using retryLoop_step [OF "0.prems"(2) nd, of run job lastErr tr] r w by simp
  also have "\<dots> = Some (Some (Exhausted (N + 1) (Some e)), ?c1 + d, tr @ attemptEvents job N a)"
    using a w by (simp add: retryLoop_end)
  finally show ?case
    using r a by auto
next
  case (Suc n)
  then have lt: "a < N" by simp
  let ?c1 = "if 0 < a then afterSleep clock (backoffOf a) else clock"
  from fails obtain e d where r: "run a ?c1 = Some (Some e, d)" by blast
  have nd: "\<not> ctxDone None clock" by (simp add: ctxDone_def)
  from big Suc.prems have w: "wrap64 (a + 1) = a + 1"
    by (simp add: wrap64_id)
  have step: "retryLoop None run job N a lastErr clock tr
          = retryLoop None run job N (a + 1) (Some e) (?c1 + d) (tr @ attemptEvents job N a)"
    using retryLoop_step [OF Suc.prems(2) nd, of run job lastErr tr] r w by simp
  from Suc.hyps(2) have "n = nat (N - (a + 1))" by simp
  moreover from lt Suc.prems have "0 \<le> a + 1" "a + 1 \<le> N" by simp_all
  ultimately obtain e' d' cN c'
    where "retryLoop None run job N (a + 1) (Some e) (?c1 + d) (tr @ attemptEvents job N a)
             = Some (Some (Exhausted (N + 1) (Some e')), c',
                     (tr @ attemptEvents job N a) @ concat (map (attemptEvents job N) [a + 1..N]))"
      and "run N cN = Some (Some e', d')"
    using Suc.hyps(1) by blast
  moreover from lt have "[a..N] = a # [a + 1..N]"
    by (simp add: upto_rec1)
  ultimately show ?case
    using step by auto
qed

text \<open>
  An executor that always fails, with the largest retry count: the counter wraps around
  and stays below the bound, so no unfolding of the loop returns.
\<close>

lemma retryLoop_never:
  assumes "retryLoop cancelAt run job N a lastErr clock tr = Some y"
  shows "\<not> (cancelAt = None \<and> (\<forall>i c. \<exists>e d. run i c = Some (Some e, d))
            \<and> N = 9223372036854775807 \<and> a \<le> 9223372036854775807)"
  using assms
proof (induction cancelAt run job N a lastErr clock tr y
    rule: retryLoop.raw_induct [rotated -1, consumes 1])
  case (1 f cancelAt run job N a lastErr clock tr y)
  show ?case
  proof
    assume inv: "cancelAt = None \<and> (\<forall>i c. \<exists>e d. run i c = Some (Some e, d))
                  \<and> N = 9223372036854775807 \<and> a \<le> 9223372036854775807"
    let ?c1 = "if 0 < a then afterSleep clock (backoffOf a) else clock"
    from inv obtain e d where r: "run a ?c1 = Some (Some e, d)" by blast
    with inv 1(2) obtain c' tr' where
      "f cancelAt run job N (wrap64 (a + 1)) (Some e) c' tr' = Some y"
      by (auto simp: ctxDone_def Let_def)
    from 1(1) [OF this] inv wrap64_le [of "a + 1"] show False
      by simp
  qed
qed

text \<open>
  C3, as stated, fails: the backoff is a plain \<open>time.Sleep\<close>. Here the device refuses
  the connection, the context is cancelled 1 s after the start, in the middle of the 2 s
  backoff before the retry: the sleep still runs its 2 s, the executor is called once
  more, and the controller returns at 2 s and 10 ns, with the exhaustion error.
\<close>

theorem backoff_not_aborted_counterexample:
  "runJobWithRetry (Some 1000000000)
     (runJobAt asciiLower (Some 1000000000) exDownEnv exTook exJob) exJob 1 0
   = Some (Some (Exhausted 2 (Some Canceled)), 2000000010,
           [RunJob 0, Retrying ''sw1'' 1 1 2000000000, Sleep 2000000000, RunJob 1])"
  by code_simp

text \<open>
  C3, amended. The trace of the controller is, for some number \<open>k\<close> of attempts made,
  the events of these attempts in order, the counter of the loop being a 64-bit integer;
  below the largest retry count these are the attempts \<open>0\<close> .. \<open>k - 1\<close> and there are at
  most \<open>N + 1\<close> of them. The events of the first attempt are only the call of the
  executor, those of a retry \<open>i > 0\<close> the log record, a sleep of the backoff and then
  the call; the backoff is \<open>i * 2\<close> seconds as long as that fits the 64-bit nanosecond
  count (\<open>i \<le> 4611686018\<close>). Cancellation is tested once, at the top of each turn and
  before the wait: if the context is done there, the controller returns the cancellation
  error without sleeping and without calling the executor. If it is not done there, the
  retry sleeps the whole backoff whatever happens to the context meanwhile, and the
  executor is called when the sleep is over.
\<close>

theorem backoff_and_cancellation:
  "(runJobWithRetry cancelAt run job N clock = Some (r, c, tr) \<longrightarrow>
      (\<exists>k. 0 \<le> k
         \<and> tr = concat (map (\<lambda>i. attemptEvents job N (wrap64 i)) [0..k - 1])
         \<and> (N < 9223372036854775807 \<longrightarrow>
              (k \<le> N + 1 \<or> k = 0)
              \<and> tr = concat (map (attemptEvents job N) [0..k - 1]))))
   \<and> attemptEvents job N 0 = [RunJob 0]
   \<and> (0 < i \<and> i \<le> 4611686018 \<longrightarrow>
        attemptEvents job N i
          = [Retrying (a_Name (j_Asset job)) i N (i * 2 * 1000000000),
             Sleep (i * 2 * 1000000000), RunJob i])
   \<and> (a \<le> N \<and> ctxDone cancelAt clock \<longrightarrow>
        retryLoop cancelAt run job N a lastErr clock tr0 = Some (Some Canceled, clock, tr0))
   \<and> (0 < a \<and> a \<le> N \<and> \<not> ctxDone cancelAt clock \<longrightarrow>
        retryLoop cancelAt run job N a lastErr clock tr0
          = (case run a (afterSleep clock (backoffOf a)) of
               None \<Rightarrow> None
             | Some (None, d) \<Rightarrow>
                 Some (None, afterSleep clock (backoffOf a) + d, tr0 @ attemptEvents job N a)
             | Some (Some e, d) \<Rightarrow>
                 retryLoop cancelAt run job N (wrap64 (a + 1)) (Some e)
                   (afterSleep clock (backoffOf a) + d) (tr0 @ attemptEvents job N a)))"
proof -
  have shape: "runJobWithRetry cancelAt run job N clock = Some (r, c, tr) \<longrightarrow>
      (\<exists>k. 0 \<le> k
         \<and> tr = concat (map (\<lambda>i. attemptEvents job N (wrap64 i)) [0..k - 1])
         \<and> (N < 9223372036854775807 \<longrightarrow>
              (k \<le> N + 1 \<or> k = 0)
              \<and> tr = concat (map (attemptEvents job N) [0..k - 1])))"
  proof
    assume "runJobWithRetry cancelAt run job N clock = Some (r, c, tr)"
    then have "retryLoop cancelAt run job N 0 None clock [] = Some (r, c, tr)"
      by (simp add: runJobWithRetry_def)
    from retryLoop_shape [OF this, rule_format, of 0] obtain k
      where k: "0 \<le> k"
        and t: "tr = concat (map (\<lambda>i. attemptEvents job N (wrap64 i)) [0..k - 1])"
        and b: "N < 9223372036854775807 \<longrightarrow> k \<le> N + 1 \<or> k = 0"
      by (auto simp: wrap64_id)
    have "N < 9223372036854775807 \<longrightarrow>
            (k \<le> N + 1 \<or> k = 0) \<and> tr = concat (map (attemptEvents job N) [0..k - 1])"
    proof
      assume n: "N < 9223372036854775807"
      with b have kb: "k \<le> N + 1 \<or> k = 0" by simp
      with n have "k \<le> 9223372036854775808" by auto
      then have m: "map (\<lambda>i. attemptEvents job N (wrap64 i)) [0..k - 1]
                      = map (attemptEvents job N) [0..k - 1]"
        by (rule attempts_unwrapped)
      from t have "tr = concat (map (attemptEvents job N) [0..k - 1])"
        unfolding m .
      with kb
      show "(k \<le> N + 1 \<or> k = 0) \<and> tr = concat (map (attemptEvents job N) [0..k - 1])"
        by (intro conjI)
    qed
    with k t show "\<exists>k. 0 \<le> k
         \<and> tr = concat (map (\<lambda>i. attemptEvents job N (wrap64 i)) [0..k - 1])
         \<and> (N < 9223372036854775807 \<longrightarrow>
              (k \<le> N + 1 \<or> k = 0)
              \<and> tr = concat (map (attemptEvents job N) [0..k - 1]))"
      by blast
  qed
  have first: "attemptEvents job N 0 = [RunJob 0]"
    by (simp add: attemptEvents_def)
  have later: "0 < i \<and> i \<le> 4611686018 \<longrightarrow>
        attemptEvents job N i
          = [Retrying (a_Name (j_Asset job)) i N (i * 2 * 1000000000),
             Sleep (i * 2 * 1000000000), RunJob i]"
    by (simp add: attemptEvents_def backoffOf_seconds)
  have stop: "a \<le> N \<and> ctxDone cancelAt clock \<longrightarrow>
        retryLoop cancelAt run job N a lastErr clock tr0 = Some (Some Canceled, clock, tr0)"
    by (simp add: retryLoop_done)
  have go: "0 < a \<and> a \<le> N \<and> \<not> ctxDone cancelAt clock \<longrightarrow>
        retryLoop cancelAt run job N a lastErr clock tr0
          = (case run a (afterSleep clock (backoffOf a)) of
               None \<Rightarrow> None
             | Some (None, d) \<Rightarrow>
                 Some (None, afterSleep clock (backoffOf a) + d, tr0 @ attemptEvents job N a)
             | Some (Some e, d) \<Rightarrow>
                 retryLoop cancelAt run job N (wrap64 (a + 1)) (Some e)
                   (afterSleep clock (backoffOf a) + d) (tr0 @ attemptEvents job N a))"
    by (simp add: retryLoop_step)
  from shape first later stop go show ?thesis
    by (intro conjI)
qed

theorem backoff_and_cancellation_witness:
  "(runJobWithRetry None exFailing exJob 2 0
      = Some (Some (Exhausted 3 (Some (External ''down''))), 6000000003,
              [RunJob 0, Retrying ''sw1'' 1 2 2000000000, Sleep 2000000000, RunJob 1,
               Retrying ''sw1'' 2 2 4000000000, Sleep 4000000000, RunJob 2])
     \<and> (2::int) < 9223372036854775807
     \<and> (\<exists>k. 0 \<le> k \<and> k \<le> 3
           \<and> [RunJob 0, Retrying ''sw1'' 1 2 2000000000, Sleep 2000000000, RunJob 1,
               Retrying ''sw1'' 2 2 4000000000, Sleep 4000000000, RunJob 2]
              = concat (map (attemptEvents exJob 2) [0..k - 1])))
   \<and> (0 < (3::int) \<and> (3::int) \<le> 4611686018
     \<and> attemptEvents exJob 5 3 = [Retrying ''sw1'' 3 5 6000000000, Sleep 6000000000, RunJob 3])
   \<and> ((3::int) \<le> 5 \<and> ctxDone (Some 7) 7
     \<and> retryLoop (Some 7) exFailing exJob 5 3 None 7 [] = Some (Some Canceled, 7, []))
   \<and> (0 < (5::int) \<and> (5::int) \<le> 5 \<and> \<not> ctxDone (Some 8) 7
     \<and> retryLoop (Some 8) exFailing exJob 5 5 None 7 []
         = Some (Some (Exhausted 6 (Some (External ''down''))), 10000000008,
                 [Retrying ''sw1'' 5 5 10000000000, Sleep 10000000000, RunJob 5]))"
proof -
  have n: "a_Name (j_Asset exJob) = ''sw1''"
    by (simp add: exJob_def exAsset_def)
  have d1: "ctxDone (Some 7) 7" and d2: "\<not> ctxDone (Some 8) 7"
    by (simp_all add: ctxDone_def)
  have b: "backoffOf 5 = 10000000000"
    by (simp add: backoffOf_seconds)
  have w6: "wrap64 (5 + 1) = 6"
    by (simp add: wrap64_id)
  note t1 = backoff_and_cancellation
    [where i = 3 and job = exJob and N = 5 and a = 3 and cancelAt = "Some 7" and clock = 7
       and run = exFailing and lastErr = None and ?tr0.0 = "[]"]
  note t2 = backoff_and_cancellation
    [where i = 3 and job = exJob and N = 5 and a = 5 and cancelAt = "Some 8" and clock = 7
       and run = exFailing and lastErr = None and ?tr0.0 = "[]"]
  have v: "runJobWithRetry None exFailing exJob 2 0
      = Some (Some (Exhausted 3 (Some (External ''down''))), 6000000003,
              [RunJob 0, Retrying ''sw1'' 1 2 2000000000, Sleep 2000000000, RunJob 1,
               Retrying ''sw1'' 2 2 4000000000, Sleep 4000000000, RunJob 2])"
    by code_simp
  note t3 = backoff_and_cancellation
    [where cancelAt = None and run = exFailing and job = exJob and N = 2 and clock = 0
       and r = "Some (Exhausted 3 (Some (External ''down'')))" and c = 6000000003
       and tr = "[RunJob 0, Retrying ''sw1'' 1 2 2000000000, Sleep 2000000000, RunJob 1,
                  Retrying ''sw1'' 2 2 4000000000, Sleep 4000000000, RunJob 2]"
       and i = 3 and a = 3 and lastErr = None and ?tr0.0 = "[]"]
  have sh: "\<exists>k. 0 \<le> k \<and> k \<le> 3
           \<and> [RunJob 0, Retrying ''sw1'' 1 2 2000000000, Sleep 2000000000, RunJob 1,
               Retrying ''sw1'' 2 2 4000000000, Sleep 4000000000, RunJob 2]
              = concat (map (attemptEvents exJob 2) [0..k - 1])"
    using t3 [THEN conjunct1] v by auto
  have e3: "attemptEvents exJob 5 3 = [Retrying ''sw1'' 3 5 6000000000, Sleep 6000000000, RunJob 3]"
    using t1 by (simp add: n)
  have c3: "retryLoop (Some 7) exFailing exJob 5 3 None 7 [] = Some (Some Canceled, 7, [])"
    using t1 d1 by simp
  have "retryLoop (Some 8) exFailing exJob 5 5 None 7 []
          = retryLoop (Some 8) exFailing exJob 5 (wrap64 (5 + 1)) (Some (External ''down''))
              (afterSleep 7 (backoffOf 5) + 1) ([] @ attemptEvents exJob 5 5)"
    using t2 d2 by (simp add: exFailing_def)
  also have "\<dots> = Some (Some (Exhausted 6 (Some (External ''down''))), 10000000008,
                 [Retrying ''sw1'' 5 5 10000000000, Sleep 10000000000, RunJob 5])"
    by (simp add: w6 retryLoop_end attemptEvents_def afterSleep_def b n wrap64_id)
  finally show ?thesis
    using v sh e3 c3 d1 d2 by simp
qed

text \<open>
  C4, as stated, fails at the largest retry count a Go \<open>int\<close> can hold: \<open>N + 1\<close> is
  then no \<open>int\<close>, the test \<open>attempt <= maxRetries\<close> never fails, and with an executor
  that always fails and no cancellation the controller does not return.
\<close>

theorem retries_largest_count_counterexample:
  "runJobWithRetry None exFailing exJob 9223372036854775807 0 = None"
proof (cases "runJobWithRetry None exFailing exJob 9223372036854775807 0")
  case None
  then show ?thesis .
next
  case (Some y)
  then have "retryLoop None exFailing exJob 9223372036854775807 0 None 0 [] = Some y"
    by (simp add: runJobWithRetry_def)
  from retryLoop_never [OF this] show ?thesis
    by (simp add: exFailing_def)
qed

text \<open>
  C4, amended. Let the retry count \<open>N\<close> be at least 0 and below the largest 64-bit
  value, let the executor return an error on every call, and let the context never be
  cancelled. Then the controller returns the exhaustion error that names \<open>N + 1\<close>
  attempts and wraps the error that the executor returned on its call for attempt \<open>N\<close>,
  the last one; and the executor was called for the attempts \<open>0\<close> .. \<open>N\<close>, once each
  and in this order, which is \<open>N + 1\<close> calls.
\<close>

theorem retries_exhausted:
  assumes "0 \<le> N" and "N < 9223372036854775807"
    and "\<forall>i c. \<exists>e d. run i c = Some (Some e, d)"
  shows "\<exists>e d cN c tr.
           runJobWithRetry None run job N clock
             = Some (Some (Exhausted (N + 1) (Some e)), c, tr)
           \<and> run N cN = Some (Some e, d)
           \<and> runCalls tr = [0..N]
           \<and> int (length (runCalls tr)) = N + 1"
proof -
  from retryLoop_all_fail [OF assms(3) assms(2) order_refl assms(1), of job None clock "[]"]
  obtain e d cN c
    where res: "runJobWithRetry None run job N clock
                  = Some (Some (Exhausted (N + 1) (Some e)), c,
                          concat (map (attemptEvents job N) [0..N]))"
      and last: "run N cN = Some (Some e, d)"
    by (auto simp: runJobWithRetry_def)
  have calls: "runCalls (concat (map (attemptEvents job N) [0..N])) = [0..N]"
    by (rule runCalls_attempts)
  from assms(1) have "int (length [0..N]) = N + 1"
    by simp
  with res last calls show ?thesis
    by (metis (no_types))
qed

theorem retries_exhausted_witness:
  "(0::int) \<le> 2 \<and> (2::int) < 9223372036854775807
   \<and> (\<forall>i c. \<exists>e d. exFailing i c = Some (Some e, d))
   \<and> (\<exists>e d cN c tr.
         runJobWithRetry None exFailing exJob 2 0 = Some (Some (Exhausted 3 (Some e)), c, tr)
         \<and> exFailing 2 cN = Some (Some e, d) \<and> runCalls tr = [0, 1, 2])
   \<and> runJobWithRetry None exFailing exJob 2 0
       = Some (Some (Exhausted 3 (Some (External ''down''))), 6000000003,
               [RunJob 0, Retrying ''sw1'' 1 2 2000000000, Sleep 2000000000, RunJob 1,
                Retrying ''sw1'' 2 2 4000000000, Sleep 4000000000, RunJob 2])"
proof -
  have h1: "(0::int) \<le> 2" and h1': "(2::int) < 9223372036854775807"
    by simp_all
  have h2: "\<forall>i c. \<exists>e d. exFailing i c = Some (Some e, d)"
    by (simp add: exFailing_def)
  have u: "[0..2] = [0, 1, (2::int)]"
    by code_simp
  from retries_exhausted [OF h1 h1' h2, of exJob 0]
  have ex: "\<exists>e d cN c tr.
         runJobWithRetry None exFailing exJob 2 0 = Some (Some (Exhausted 3 (Some e)), c, tr)
         \<and> exFailing 2 cN = Some (Some e, d) \<and> runCalls tr = [0, 1, 2]"
    by (simp add: u) blast
  have v: "runJobWithRetry None exFailing exJob 2 0
       = Some (Some (Exhausted 3 (Some (External ''down''))), 6000000003,
               [RunJob 0, Retrying ''sw1'' 1 2 2000000000, Sleep 2000000000, RunJob 1,
                Retrying ''sw1'' 2 2 4000000000, Sleep 4000000000, RunJob 2])"
    by code_simp
  from h1 h1' h2 ex v show ?thesis
    by (intro conjI)
qed

end
